theory Spec2Isabelle
  imports Main "HOL-Library.Word" "HOL-Library.Sublist"
begin

unbundle bit_operations_syntax

section \<open>Errors and message formatting\<close>

text \<open>
  The generic firmware container of \<^verbatim>\<open>libfwupdplugin/fu-firmware.c\<close>.
  A \<^verbatim>\<open>GError\<close> is a code of the \<^verbatim>\<open>FWUPD_ERROR\<close> domain and a message.
  A function that reports through \<^verbatim>\<open>GError **error\<close> returns the error as a value.
\<close>

datatype FwupdError =
    FWUPD_ERROR_INTERNAL
  | FWUPD_ERROR_NOT_FOUND
  | FWUPD_ERROR_NOT_SUPPORTED
  | FWUPD_ERROR_INVALID_DATA
  | FWUPD_ERROR_INVALID_FILE
  | FWUPD_ERROR_NOTHING_TO_DO
  | FWUPD_ERROR_READ
  | FWUPD_ERROR_WRITE

record GError =
  code :: FwupdError
  message :: string

text \<open>\<^verbatim>\<open>g_prefix_error (error, prefix)\<close>: the prefix goes in front of the message, the code stays.\<close>

definition g_prefix_error :: "GError \<Rightarrow> string \<Rightarrow> GError" where
  "g_prefix_error e p = e\<lparr>message := p @ message e\<rparr>"

text \<open>The digits printed by \<^verbatim>\<open>%x\<close> and \<^verbatim>\<open>%u\<close>.\<close>

definition hex_digit :: "nat \<Rightarrow> char" where
  "hex_digit d = ''0123456789abcdef'' ! (d mod 16)"

function fmt_x :: "nat \<Rightarrow> string" where
  "fmt_x n = (if n < 16 then [hex_digit n] else fmt_x (n div 16) @ [hex_digit (n mod 16)])"
  by pat_completeness auto
termination
  by (relation "measure (\<lambda>n. n)") auto

function fmt_u :: "nat \<Rightarrow> string" where
  "fmt_u n = (if n < 10 then [hex_digit n] else fmt_u (n div 10) @ [hex_digit (n mod 10)])"
  by pat_completeness auto
termination
  by (relation "measure (\<lambda>n. n)") auto

declare fmt_x.simps [simp del] fmt_u.simps [simp del]

text \<open>
  \<^verbatim>\<open>(guint) v\<close> on a \<^verbatim>\<open>gsize\<close>: the low 32 bits. Sizes and offsets (\<^verbatim>\<open>gsize\<close>,
  \<^verbatim>\<open>guint64\<close>) are naturals; the one subtraction of the pipeline, \<^verbatim>\<open>streamsz - offset\<close>,
  runs only after \<^verbatim>\<open>streamsz > offset\<close> was checked.
\<close>

definition to_guint :: "nat \<Rightarrow> nat" where
  "to_guint v = v mod 2 ^ 32"

section \<open>Byte buffers and streams\<close>

type_synonym guint8 = "8 word"

text \<open>
  A \<^verbatim>\<open>GBytes *\<close> is an immutable buffer: the address of the object, which
  \<^verbatim>\<open>fu_firmware_set_bytes\<close> compares, and its content.
\<close>

record GBytes =
  bytes_ptr :: nat
  bytes_data :: "guint8 list"

definition g_bytes_get_size :: "GBytes \<Rightarrow> nat" where
  "g_bytes_get_size b = length (bytes_data b)"

text \<open>
  A \<^verbatim>\<open>GInputStream\<close>: the bytes it delivers, and the error of its size query when
  the size cannot be determined.
\<close>

record GInputStream =
  stream_data :: "guint8 list"
  stream_size_error :: "GError option"

text \<open>
  Modelled from the spec: \<^verbatim>\<open>fu_input_stream_size\<close>, \<^verbatim>\<open>fu_input_stream_read_bytes\<close>
  (fu-input-stream.c) and \<^verbatim>\<open>fu_partial_input_stream_new\<close> (fu-partial-input-stream.c)
  are not among the sources. The byte source supports a total-size query that may fail,
  a bounded sub-range read, and the conversion into a narrower bounded view.
\<close>

definition fu_input_stream_size :: "GInputStream \<Rightarrow> GError + nat" where
  "fu_input_stream_size st =
     (case stream_size_error st of
        Some e \<Rightarrow> Inl e
      | None \<Rightarrow> Inr (length (stream_data st)))"

definition fu_input_stream_read_bytes :: "GInputStream \<Rightarrow> nat \<Rightarrow> nat \<Rightarrow> GError + guint8 list" where
  "fu_input_stream_read_bytes st off count =
     (if off + count \<le> length (stream_data st)
      then Inr (take count (drop off (stream_data st)))
      else Inl \<lparr>code = FWUPD_ERROR_READ, message = ''read outside of the stream''\<rparr>)"

definition fu_partial_input_stream_new :: "GInputStream \<Rightarrow> nat \<Rightarrow> nat \<Rightarrow> GError + GInputStream" where
  "fu_partial_input_stream_new st off sz =
     (if off + sz \<le> length (stream_data st)
      then Inr (st\<lparr>stream_data := take sz (drop off (stream_data st))\<rparr>)
      else Inl \<lparr>code = FWUPD_ERROR_INVALID_DATA, message = ''base stream is too small''\<rparr>)"

text \<open>
  Modelled from the spec: \<^verbatim>\<open>fu_memcpy_safe\<close> (fu-mem.c) is not among the sources. It copies
  \<^verbatim>\<open>n\<close> bytes of \<^verbatim>\<open>src\<close> from \<^verbatim>\<open>src_offset\<close> over \<^verbatim>\<open>dst\<close> at \<^verbatim>\<open>dst_offset\<close> and
  fails when either range falls outside its buffer. The destination is returned updated.
\<close>

definition fu_memcpy_safe :: "guint8 list \<Rightarrow> nat \<Rightarrow> guint8 list \<Rightarrow> nat \<Rightarrow> nat \<Rightarrow> GError + guint8 list" where
  "fu_memcpy_safe dst dst_offset src src_offset n =
     (if length src < src_offset + n
      then Inl \<lparr>code = FWUPD_ERROR_READ, message = ''attempted to read outside of the buffer''\<rparr>
      else if length dst < dst_offset + n
      then Inl \<lparr>code = FWUPD_ERROR_WRITE, message = ''attempted to write outside of the buffer''\<rparr>
      else Inr (take dst_offset dst @ take n (drop src_offset src) @ drop (dst_offset + n) dst))"

section \<open>The firmware node\<close>

text \<open>\<^verbatim>\<open>FuFirmwarePatch\<close>: an offset and the replacement bytes.\<close>

record FuFirmwarePatch =
  ptch_offset :: nat
  ptch_blob :: GBytes

text \<open>
  \<^verbatim>\<open>FuFirmwarePrivate\<close>, field by field. Objects are referred to by their address in the
  object store: \<^verbatim>\<open>parent\<close> and the elements of \<^verbatim>\<open>images\<close> and \<^verbatim>\<open>chunks\<close> are addresses.
  A \<^verbatim>\<open>NULL\<close> pointer is \<open>None\<close>. The fields \<^verbatim>\<open>id\<close> and \<^verbatim>\<open>size\<close> are \<open>fw_id\<close> and
  \<open>fw_size\<close> here. \<^verbatim>\<open>alignment\<close> is a \<^verbatim>\<open>FuFirmwareAlignment\<close>, the bit position of a
  power of two, at most \<^verbatim>\<open>FU_FIRMWARE_ALIGNMENT_2G\<close> (0x1F).
\<close>

record FuFirmware =
  flags :: "64 word"
  parent :: "nat option"
  images :: "nat list"
  version :: "string option"
  version_raw :: "64 word"
  version_format :: nat
  bytes :: "GBytes option"
  stream :: "GInputStream option"
  streamsz :: nat
  alignment :: nat
  fw_id :: "string option"
  filename :: "string option"
  idx :: "64 word"
  addr :: "64 word"
  offset :: nat
  fw_size :: nat
  size_max :: nat
  images_max :: nat
  depth :: "32 word"
  chunks :: "nat list option"
  patches :: "FuFirmwarePatch list option"

text \<open>
  \<^verbatim>\<open>g_object_new\<close> clears the private data and \<^verbatim>\<open>fu_firmware_init\<close> creates the empty
  array of images.
\<close>

definition fu_firmware_init :: FuFirmware where
  "fu_firmware_init =
     \<lparr>flags = 0, parent = None, images = [], version = None, version_raw = 0,
      version_format = 0, bytes = None, stream = None, streamsz = 0, alignment = 0,
      fw_id = None, filename = None, idx = 0, addr = 0, offset = 0, fw_size = 0,
      size_max = 0, images_max = 0, depth = 0, chunks = None, patches = None\<rparr>"

text \<open>
  Modelled from the spec: the flag constants of fu-firmware.h are not among the sources.
  Each flag of the node (dedupe-by-id, dedupe-by-index, has-checksum, done-parsing,
  always-search-for-magic, has-check-compatible) and each parse flag (no-search,
  cache-stream, cache-blob) is one bit, all distinct; so is the search ceiling
  \<^verbatim>\<open>FU_FIRMWARE_SEARCH_MAGIC_BUFSZ_MAX\<close> a fixed size (32 MiB).
\<close>

definition FU_FIRMWARE_FLAG_DEDUPE_ID :: "64 word" where
  "FU_FIRMWARE_FLAG_DEDUPE_ID = 0x1"

definition FU_FIRMWARE_FLAG_DEDUPE_IDX :: "64 word" where
  "FU_FIRMWARE_FLAG_DEDUPE_IDX = 0x2"

definition FU_FIRMWARE_FLAG_HAS_CHECKSUM :: "64 word" where
  "FU_FIRMWARE_FLAG_HAS_CHECKSUM = 0x4"

definition FU_FIRMWARE_FLAG_DONE_PARSE :: "64 word" where
  "FU_FIRMWARE_FLAG_DONE_PARSE = 0x10"

definition FU_FIRMWARE_FLAG_ALWAYS_SEARCH :: "64 word" where
  "FU_FIRMWARE_FLAG_ALWAYS_SEARCH = 0x40"

definition FU_FIRMWARE_FLAG_HAS_CHECK_COMPATIBLE :: "64 word" where
  "FU_FIRMWARE_FLAG_HAS_CHECK_COMPATIBLE = 0x100"

definition FU_FIRMWARE_PARSE_FLAG_NO_SEARCH :: "64 word" where
  "FU_FIRMWARE_PARSE_FLAG_NO_SEARCH = 0x100"

definition FU_FIRMWARE_PARSE_FLAG_CACHE_STREAM :: "64 word" where
  "FU_FIRMWARE_PARSE_FLAG_CACHE_STREAM = 0x400"

definition FU_FIRMWARE_PARSE_FLAG_CACHE_BLOB :: "64 word" where
  "FU_FIRMWARE_PARSE_FLAG_CACHE_BLOB = 0x800"

definition FU_FIRMWARE_SEARCH_MAGIC_BUFSZ_MAX :: nat where
  "FU_FIRMWARE_SEARCH_MAGIC_BUFSZ_MAX = 32 * 1024 * 1024"

definition FU_FIRMWARE_IMAGE_DEPTH_MAX :: "32 word" where
  "FU_FIRMWARE_IMAGE_DEPTH_MAX = 50"

definition fu_firmware_add_flag :: "FuFirmware \<Rightarrow> 64 word \<Rightarrow> FuFirmware" where
  "fu_firmware_add_flag self flag = self\<lparr>flags := flags self OR flag\<rparr>"

definition fu_firmware_has_flag :: "FuFirmware \<Rightarrow> 64 word \<Rightarrow> bool" where
  "fu_firmware_has_flag self flag = (flags self AND flag > 0)"

section \<open>Payload access\<close>

text \<open>
  \<^verbatim>\<open>fu_firmware_set_bytes\<close>: nothing happens when the node already holds this very
  \<^verbatim>\<open>GBytes\<close>; otherwise the buffer is stored and the stream is dropped.
\<close>

definition fu_firmware_set_bytes :: "FuFirmware \<Rightarrow> GBytes \<Rightarrow> FuFirmware" where
  "fu_firmware_set_bytes self b =
     (if (case bytes self of None \<Rightarrow> False | Some old \<Rightarrow> bytes_ptr old = bytes_ptr b)
      then self
      else self\<lparr>bytes := Some b, stream := None\<rparr>)"

text \<open>
  \<^verbatim>\<open>fu_firmware_get_bytes\<close>. The \<^verbatim>\<open>GBytes\<close> handed to the caller is given by its content.
\<close>

definition fu_firmware_get_bytes :: "FuFirmware \<Rightarrow> GError + guint8 list" where
  "fu_firmware_get_bytes self =
     (case bytes self of
        Some b \<Rightarrow> Inr (bytes_data b)
      | None \<Rightarrow>
          (case stream self of
             Some st \<Rightarrow>
               if streamsz self = 0
               then Inl \<lparr>code = FWUPD_ERROR_INVALID_DATA, message = ''stream size unknown''\<rparr>
               else fu_input_stream_read_bytes st 0 (streamsz self)
           | None \<Rightarrow> Inl \<lparr>code = FWUPD_ERROR_NOT_FOUND, message = ''no payload set''\<rparr>))"

text \<open>
  The loop of \<^verbatim>\<open>fu_firmware_get_bytes_with_patches\<close> over \<^verbatim>\<open>priv->patches\<close>: \<open>buf\<close> is
  the \<^verbatim>\<open>GByteArray\<close> that \<^verbatim>\<open>fu_memcpy_safe\<close> writes to; the first patch that does not fit
  ends the loop with the error of \<^verbatim>\<open>fu_memcpy_safe\<close>, prefixed with
  \<^verbatim>\<open>"failed to apply patch @0x%x: "\<close> and \<^verbatim>\<open>(guint) ptch->offset\<close>.
\<close>

fun apply_patches :: "guint8 list \<Rightarrow> FuFirmwarePatch list \<Rightarrow> GError + guint8 list" where
  "apply_patches buf [] = Inr buf"
| "apply_patches buf (ptch # rest) =
     (case fu_memcpy_safe buf (ptch_offset ptch)
             (bytes_data (ptch_blob ptch)) 0 (g_bytes_get_size (ptch_blob ptch)) of
        Inl e \<Rightarrow>
          Inl (g_prefix_error e
                 (''failed to apply patch @0x'' @ fmt_x (to_guint (ptch_offset ptch)) @ '': ''))
      | Inr buf' \<Rightarrow> apply_patches buf' rest)"

text \<open>
  \<^verbatim>\<open>fu_firmware_get_bytes_with_patches\<close>: the result, and the node as the call leaves it.
  \<^verbatim>\<open>buf\<close> is a new \<^verbatim>\<open>GByteArray\<close> to which \<^verbatim>\<open>fu_byte_array_append_bytes\<close> copies the
  content of \<^verbatim>\<open>priv->bytes\<close>; the patches go to this copy, and \<^verbatim>\<open>g_bytes_new\<close> copies the
  outcome once more.
\<close>

definition fu_firmware_get_bytes_with_patches :: "FuFirmware \<Rightarrow> (GError + guint8 list) \<times> FuFirmware" where
  "fu_firmware_get_bytes_with_patches self =
     (case bytes self of
        None \<Rightarrow>
          (case stream self of
             Some st \<Rightarrow> (fu_firmware_get_bytes self, self)
           | None \<Rightarrow> (Inl \<lparr>code = FWUPD_ERROR_NOT_FOUND, message = ''no payload set''\<rparr>, self))
      | Some b \<Rightarrow>
          (case patches self of
             None \<Rightarrow> (fu_firmware_get_bytes self, self)
           | Some ps \<Rightarrow> (apply_patches ([] @ bytes_data b) ps, self)))"

text \<open>
  \<^verbatim>\<open>fu_firmware_set_stream\<close>: the size of the stream is recorded first, and a failing
  size query leaves the node as it was. A \<^verbatim>\<open>NULL\<close> stream clears the recorded size.
  The buffer is not touched.
\<close>

definition fu_firmware_set_stream :: "FuFirmware \<Rightarrow> GInputStream option \<Rightarrow> GError option \<times> FuFirmware" where
  "fu_firmware_set_stream self st_opt =
     (case st_opt of
        Some st \<Rightarrow>
          (case fu_input_stream_size st of
             Inl e \<Rightarrow> (Some e, self)
           | Inr sz \<Rightarrow> (None, self\<lparr>streamsz := sz, stream := Some st\<rparr>))
      | None \<Rightarrow> (None, self\<lparr>streamsz := 0, stream := None\<rparr>))"

section \<open>Patches\<close>



section \<open>The parse pipeline\<close>

text \<open>
  The hooks of \<^verbatim>\<open>FuFirmwareClass\<close> that the pipeline calls; \<open>None\<close> is a hook left
  \<^verbatim>\<open>NULL\<close>. A hook that returns \<^verbatim>\<open>FALSE\<close> sets its error. \<^verbatim>\<open>validate\<close> inspects the
  stream at an offset; \<^verbatim>\<open>tokenize\<close> and \<^verbatim>\<open>parse\<close> work on the node they are given and
  hand it back as they left it.
\<close>

record FuFirmwareClass =
  validate :: "(FuFirmware \<Rightarrow> GInputStream \<Rightarrow> nat \<Rightarrow> GError option) option"
  tokenize :: "(FuFirmware \<Rightarrow> GInputStream \<Rightarrow> 64 word \<Rightarrow> GError option \<times> FuFirmware) option"
  parse :: "(FuFirmware \<Rightarrow> GInputStream \<Rightarrow> 64 word \<Rightarrow> GError option \<times> FuFirmware) option"
  check_compatible :: "(FuFirmware \<Rightarrow> FuFirmware \<Rightarrow> 64 word \<Rightarrow> GError option) option"

definition fu_firmware_set_offset :: "FuFirmware \<Rightarrow> nat \<Rightarrow> FuFirmware" where
  "fu_firmware_set_offset self off = self\<lparr>offset := off\<rparr>"

text \<open>
  The search loop of \<^verbatim>\<open>fu_firmware_validate_for_offset\<close>:
  \<^verbatim>\<open>for (offset_tmp = *offset; offset_tmp < streamsz; offset_tmp++)\<close>, ending at the first
  offset the validator accepts.
\<close>

function search_magic ::
  "(FuFirmware \<Rightarrow> GInputStream \<Rightarrow> nat \<Rightarrow> GError option) \<Rightarrow> FuFirmware \<Rightarrow> GInputStream \<Rightarrow> nat \<Rightarrow> nat \<Rightarrow> nat option" where
  "search_magic v self st offset_tmp sz =
     (if offset_tmp < sz
      then (if v self st offset_tmp = None then Some offset_tmp
            else search_magic v self st (Suc offset_tmp) sz)
      else None)"
  by pat_completeness auto
termination
  by (relation "measure (\<lambda>(v, self, st, offset_tmp, sz). sz - offset_tmp)") auto

declare search_magic.simps [simp del]

text \<open>
  \<^verbatim>\<open>fu_firmware_validate_for_offset\<close>: the resolved offset and the node (whose \<^verbatim>\<open>offset\<close>
  the search sets when it finds the magic), or the error, the node being untouched then.
\<close>

definition fu_firmware_validate_for_offset ::
  "FuFirmwareClass \<Rightarrow> FuFirmware \<Rightarrow> GInputStream \<Rightarrow> nat \<Rightarrow> 64 word \<Rightarrow> GError + nat \<times> FuFirmware" where
  "fu_firmware_validate_for_offset klass self st off fl =
     (case validate klass of
        None \<Rightarrow> Inr (off, self)
      | Some v \<Rightarrow>
          if \<not> fu_firmware_has_flag self FU_FIRMWARE_FLAG_ALWAYS_SEARCH
             \<and> fl AND FU_FIRMWARE_PARSE_FLAG_NO_SEARCH > 0
          then (case v self st off of Some e \<Rightarrow> Inl e | None \<Rightarrow> Inr (off, self))
          else
            (case fu_input_stream_size st of
               Inl e \<Rightarrow> Inl e
             | Inr sz \<Rightarrow>
                 if sz > FU_FIRMWARE_SEARCH_MAGIC_BUFSZ_MAX
                 then (case v self st off of
                         Some e \<Rightarrow>
                           Inl (g_prefix_error e
                                  (''failed to search for magic as firmware size was 0x''
                                   @ fmt_x (to_guint sz) @ '' and limit was 0x''
                                   @ fmt_x (to_guint FU_FIRMWARE_SEARCH_MAGIC_BUFSZ_MAX) @ '': ''))
                       | None \<Rightarrow> Inr (off, self))
                 else (case search_magic v self st off sz of
                         Some offset_tmp \<Rightarrow> Inr (offset_tmp, fu_firmware_set_offset self offset_tmp)
                       | None \<Rightarrow>
                           Inl \<lparr>code = FWUPD_ERROR_INVALID_FILE, message = ''did not find magic''\<rparr>)))"

text \<open>
  GLib's \<^verbatim>\<open>g_format_size\<close> and \<^verbatim>\<open>g_format_size_full\<close> with IEC units print a byte count
  below the first unit and one decimal of the largest fitting unit above it. GLib prints
  that decimal through a \<^verbatim>\<open>double\<close>; here the exact quotient is rounded to the nearest
  tenth.
\<close>

definition fmt_tenths :: "nat \<Rightarrow> nat \<Rightarrow> string" where
  "fmt_tenths n factor =
     (let t = (n * 10 + factor div 2) div factor in fmt_u (t div 10) @ ''.'' @ fmt_u (t mod 10))"

fun format_scaled :: "nat \<Rightarrow> nat \<Rightarrow> string list \<Rightarrow> nat \<Rightarrow> string" where
  "format_scaled base factor [] n = fmt_u n"
| "format_scaled base factor [u] n = fmt_tenths n factor @ '' '' @ u"
| "format_scaled base factor (u # us) n =
     (if n < factor * base then fmt_tenths n factor @ '' '' @ u
      else format_scaled base (factor * base) us n)"

definition format_bytes :: "nat \<Rightarrow> nat \<Rightarrow> string list \<Rightarrow> string" where
  "format_bytes base n units =
     (if n < base then fmt_u n @ (if n = 1 then '' byte'' else '' bytes'')
      else format_scaled base base units n)"

definition g_format_size :: "nat \<Rightarrow> string" where
  "g_format_size n = format_bytes 1000 n [''kB'', ''MB'', ''GB'', ''TB'', ''PB'', ''EB'']"

definition g_format_size_iec :: "nat \<Rightarrow> string" where
  "g_format_size_iec n = format_bytes 1024 n [''KiB'', ''MiB'', ''GiB'', ''TiB'', ''PiB'', ''EiB'']"

text \<open>
  \<^verbatim>\<open>fu_firmware_parse_stream\<close>, first part, up to the point where the node is marked:
  the reuse check, the size check, the optional validation and the bounds on the
  remaining size. \<^verbatim>\<open>priv->streamsz\<close> is written before its two checks. A success gives
  the size of the whole stream and the resolved offset.
\<close>

definition parse_stream_checks ::
  "FuFirmwareClass \<Rightarrow> FuFirmware \<Rightarrow> GInputStream \<Rightarrow> nat \<Rightarrow> 64 word \<Rightarrow> (GError + nat \<times> nat) \<times> FuFirmware" where
  "parse_stream_checks klass self st off fl =
     (if fu_firmware_has_flag self FU_FIRMWARE_FLAG_DONE_PARSE
      then (Inl \<lparr>code = FWUPD_ERROR_NOT_SUPPORTED,
                 message = ''firmware object cannot be reused''\<rparr>, self)
      else
        (case fu_input_stream_size st of
           Inl e \<Rightarrow> (Inl e, self)
         | Inr sz \<Rightarrow>
             if sz \<le> off
             then (Inl \<lparr>code = FWUPD_ERROR_NOT_SUPPORTED,
                        message = ''stream size 0x'' @ fmt_x (to_guint sz)
                                  @ '' is smaller than offset 0x'' @ fmt_x (to_guint off)\<rparr>, self)
             else
               (case fu_firmware_validate_for_offset klass self st off fl of
                  Inl e \<Rightarrow> (Inl e, self)
                | Inr (off1, self1) \<Rightarrow>
                    (let self2 = self1\<lparr>streamsz := sz - off1\<rparr>
                     in if streamsz self2 = 0
                        then (Inl \<lparr>code = FWUPD_ERROR_NOT_SUPPORTED,
                                   message = ''invalid firmware as zero sized''\<rparr>, self2)
                        else if size_max self2 > 0 \<and> streamsz self2 > size_max self2
                        then (Inl \<lparr>code = FWUPD_ERROR_INVALID_FILE,
                                   message = ''firmware is too large (''
                                             @ g_format_size (streamsz self2) @ '', limit ''
                                             @ g_format_size (size_max self2) @ '')''\<rparr>, self2)
                        else (Inr (sz, off1), self2)))))"

text \<open>
  Second part: the node is marked as parsed, and the view of the stream from the resolved
  offset is cut; at offset 0 the view is the stream itself. The node comes back marked
  also when the cut fails.
\<close>

definition parse_stream_save ::
  "FuFirmwareClass \<Rightarrow> FuFirmware \<Rightarrow> GInputStream \<Rightarrow> nat \<Rightarrow> (GError + GInputStream) \<times> FuFirmware" where
  "parse_stream_save klass self2 st off1 =
     (let self3 = fu_firmware_add_flag self2 FU_FIRMWARE_FLAG_DONE_PARSE;
          self4 = (if check_compatible klass \<noteq> None
                   then fu_firmware_add_flag self3 FU_FIRMWARE_FLAG_HAS_CHECK_COMPATIBLE
                   else self3)
      in if off1 = 0 then (Inr st, self4)
         else (case fu_partial_input_stream_new st off1 (streamsz self4) of
                 Inl e \<Rightarrow> (Inl (g_prefix_error e ''failed to cut firmware: ''), self4)
               | Inr partial_stream \<Rightarrow> (Inr partial_stream, self4)))"

text \<open>
  Third part, the cache: \<^verbatim>\<open>FU_FIRMWARE_PARSE_FLAG_CACHE_BLOB\<close> reads the bytes of the view
  and stores them with \<^verbatim>\<open>fu_firmware_set_bytes\<close>; then
  \<^verbatim>\<open>FU_FIRMWARE_PARSE_FLAG_CACHE_STREAM\<close> stores the view in \<^verbatim>\<open>priv->stream\<close>. \<open>blob_ptr\<close>
  is the address of the \<^verbatim>\<open>GBytes\<close> that \<^verbatim>\<open>fu_input_stream_read_bytes\<close> allocates. When
  the read fails the node stays as the second part left it.
\<close>

definition parse_stream_cache ::
  "nat \<Rightarrow> FuFirmware \<Rightarrow> GInputStream \<Rightarrow> 64 word \<Rightarrow> GError + FuFirmware" where
  "parse_stream_cache blob_ptr self4 partial_stream fl =
     (case (if fl AND FU_FIRMWARE_PARSE_FLAG_CACHE_BLOB \<noteq> 0
            then (case fu_input_stream_read_bytes partial_stream 0 (streamsz self4) of
                    Inl e \<Rightarrow> Inl e
                  | Inr d \<Rightarrow>
                      Inr (fu_firmware_set_bytes self4 \<lparr>bytes_ptr = blob_ptr, bytes_data = d\<rparr>))
            else Inr self4) of
        Inl e \<Rightarrow> Inl e
      | Inr self5 \<Rightarrow>
          Inr (if fl AND FU_FIRMWARE_PARSE_FLAG_CACHE_STREAM \<noteq> 0
               then self5\<lparr>stream := Some partial_stream\<rparr>
               else self5))"

text \<open>
  Fourth part: the optional \<^verbatim>\<open>tokenize\<close> hook, then the \<^verbatim>\<open>parse\<close> hook, and in its
  absence the alignment check of the raw firmware, which tests \<^verbatim>\<open>streamsz\<close>, the size of
  the whole stream, against \<^verbatim>\<open>1ull << priv->alignment\<close>. The exponent is a
  \<^verbatim>\<open>FuFirmwareAlignment\<close>, at most 0x1F; the power is computed without wrapping, so the
  definition says nothing of an exponent of 64 or more, where the shift of the source is
  undefined.
\<close>

definition parse_stream_hooks ::
  "FuFirmwareClass \<Rightarrow> FuFirmware \<Rightarrow> GInputStream \<Rightarrow> nat \<Rightarrow> 64 word \<Rightarrow> GError option \<times> FuFirmware" where
  "parse_stream_hooks klass self6 partial_stream sz fl =
     (case (case tokenize klass of
              None \<Rightarrow> (None, self6)
            | Some t \<Rightarrow> t self6 partial_stream fl) of
        (Some e, self7) \<Rightarrow> (Some e, self7)
      | (None, self7) \<Rightarrow>
          (case parse klass of
             Some p \<Rightarrow> p self7 partial_stream fl
           | None \<Rightarrow>
               if sz mod 2 ^ alignment self7 \<noteq> 0
               then (Some \<lparr>code = FWUPD_ERROR_INVALID_FILE,
                           message = ''raw firmware is not aligned to 0x''
                                     @ fmt_x (to_guint (2 ^ alignment self7)) @ '' (''
                                     @ g_format_size_iec (2 ^ alignment self7) @ '')''\<rparr>, self7)
               else (None, self7)))"

text \<open>\<^verbatim>\<open>fu_firmware_parse_stream\<close>: the error, if any, and the node as the call leaves it.\<close>

definition fu_firmware_parse_stream ::
  "FuFirmwareClass \<Rightarrow> nat \<Rightarrow> FuFirmware \<Rightarrow> GInputStream \<Rightarrow> nat \<Rightarrow> 64 word \<Rightarrow> GError option \<times> FuFirmware" where
  "fu_firmware_parse_stream klass blob_ptr self st off fl =
     (case parse_stream_checks klass self st off fl of
        (Inl e, self2) \<Rightarrow> (Some e, self2)
      | (Inr (sz, off1), self2) \<Rightarrow>
          (case parse_stream_save klass self2 st off1 of
             (Inl e, self4) \<Rightarrow> (Some e, self4)
           | (Inr partial_stream, self4) \<Rightarrow>
               (case parse_stream_cache blob_ptr self4 partial_stream fl of
                  Inl e \<Rightarrow> (Some e, self4)
                | Inr self6 \<Rightarrow> parse_stream_hooks klass self6 partial_stream sz fl)))"

section \<open>The probe chain\<close>

text \<open>
  A \<^verbatim>\<open>GType\<close> of a firmware format: what its instance initialiser does to the fresh
  node, and its class. \<^verbatim>\<open>g_object_new (gtype, NULL)\<close> runs \<^verbatim>\<open>fu_firmware_init\<close> and
  then the initialiser of the format.
\<close>

record GType =
  instance_init :: "FuFirmware \<Rightarrow> FuFirmware"
  klass_of :: FuFirmwareClass

definition g_object_new :: "GType \<Rightarrow> FuFirmware" where
  "g_object_new gtype = instance_init gtype fu_firmware_init"

text \<open>
  The loop of \<^verbatim>\<open>fu_firmware_new_from_gtypes\<close> over the candidates, with \<^verbatim>\<open>error_all\<close>:
  the first failure becomes \<^verbatim>\<open>error_all\<close>, and each later one puts its message and
  \<^verbatim>\<open>": "\<close> in front. The first candidate that parses is returned with its type. After
  the loop \<^verbatim>\<open>error_all\<close> is handed to the caller.
\<close>

fun try_gtypes ::
  "nat \<Rightarrow> GInputStream \<Rightarrow> nat \<Rightarrow> 64 word \<Rightarrow> GError option \<Rightarrow> GType list \<Rightarrow> GError option + GType \<times> FuFirmware" where
  "try_gtypes blob_ptr st off fl error_all [] = Inl error_all"
| "try_gtypes blob_ptr st off fl error_all (gtype # rest) =
     (case fu_firmware_parse_stream (klass_of gtype) blob_ptr (g_object_new gtype) st off fl of
        (Some error_local, firmware) \<Rightarrow>
          try_gtypes blob_ptr st off fl
            (case error_all of
               None \<Rightarrow> Some error_local
             | Some ea \<Rightarrow> Some (g_prefix_error ea (message error_local @ '': '')))
            rest
      | (None, firmware) \<Rightarrow> Inr (gtype, firmware))"

definition fu_firmware_new_from_gtypes ::
  "nat \<Rightarrow> GInputStream \<Rightarrow> nat \<Rightarrow> 64 word \<Rightarrow> GType list \<Rightarrow> GError option + GType \<times> FuFirmware" where
  "fu_firmware_new_from_gtypes blob_ptr st off fl gtypes =
     (if length gtypes = 0
      then Inl (Some \<lparr>code = FWUPD_ERROR_NOTHING_TO_DO, message = ''no GTypes specified''\<rparr>)
      else try_gtypes blob_ptr st off fl None gtypes)"

section \<open>The tree of images\<close>

text \<open>
  The object store: the node at address \<open>r\<close> is \<open>h ! r\<close>, and \<^verbatim>\<open>FU_IS_FIRMWARE\<close> holds of
  the addresses below \<open>length h\<close>. \<^verbatim>\<open>fu_firmware_new\<close> allocates at the end. Reference
  counts are not modelled: no object is ever freed.
\<close>

type_synonym heap = "FuFirmware list"

definition FU_IS_FIRMWARE :: "heap \<Rightarrow> nat \<Rightarrow> bool" where
  "FU_IS_FIRMWARE h r = (r < length h)"

definition fu_firmware_new :: "heap \<Rightarrow> heap \<times> nat" where
  "fu_firmware_new h = (h @ [fu_firmware_init], length h)"

text \<open>
  A call on the store fails either through \<^verbatim>\<open>g_return_val_if_fail\<close>, which sets no
  error, or with a \<^verbatim>\<open>GError\<close>.
\<close>

datatype failure = G_CRITICAL | G_ERROR GError

definition fu_firmware_get_id :: "heap \<Rightarrow> nat \<Rightarrow> string option" where
  "fu_firmware_get_id h r = (if FU_IS_FIRMWARE h r then fw_id (h ! r) else None)"

definition fu_firmware_get_idx :: "heap \<Rightarrow> nat \<Rightarrow> 64 word" where
  "fu_firmware_get_idx h r = (if FU_IS_FIRMWARE h r then idx (h ! r) else - 1)"

definition fu_firmware_get_depth :: "heap \<Rightarrow> nat \<Rightarrow> 32 word" where
  "fu_firmware_get_depth h r = (if FU_IS_FIRMWARE h r then depth (h ! r) else - 1)"

definition fu_firmware_set_parent :: "heap \<Rightarrow> nat \<Rightarrow> nat option \<Rightarrow> heap" where
  "fu_firmware_set_parent h r p = (if FU_IS_FIRMWARE h r then h[r := (h ! r)\<lparr>parent := p\<rparr>] else h)"

definition fu_firmware_set_depth :: "heap \<Rightarrow> nat \<Rightarrow> 32 word \<Rightarrow> heap" where
  "fu_firmware_set_depth h r d = (if FU_IS_FIRMWARE h r then h[r := (h ! r)\<lparr>depth := d\<rparr>] else h)"

text \<open>
  The two dedupe loops of \<^verbatim>\<open>fu_firmware_add_image_full\<close>: the first image that matches
  is removed from the array, and the loop ends.
\<close>

fun remove_first :: "('a \<Rightarrow> bool) \<Rightarrow> 'a list \<Rightarrow> 'a list" where
  "remove_first P [] = []"
| "remove_first P (x # xs) = (if P x then xs else x # remove_first P xs)"

text \<open>
  \<^verbatim>\<open>fu_firmware_add_image_full\<close>. The dedupe loops change \<^verbatim>\<open>priv->images\<close> before the
  check of \<^verbatim>\<open>images_max\<close>, so the store comes back on failure as well.
\<close>

definition fu_firmware_add_image_full :: "heap \<Rightarrow> nat \<Rightarrow> nat \<Rightarrow> failure option \<times> heap" where
  "fu_firmware_add_image_full h self img =
     (if \<not> FU_IS_FIRMWARE h self \<or> \<not> FU_IS_FIRMWARE h img then (Some G_CRITICAL, h)
      else if depth (h ! self) > FU_FIRMWARE_IMAGE_DEPTH_MAX
      then (Some (G_ERROR \<lparr>code = FWUPD_ERROR_INVALID_DATA,
                           message = ''images are nested too deep, limit is ''
                                     @ fmt_u (unat FU_FIRMWARE_IMAGE_DEPTH_MAX)\<rparr>), h)
      else
        (let images1 =
               (if flags (h ! self) AND FU_FIRMWARE_FLAG_DEDUPE_ID \<noteq> 0
                then remove_first
                       (\<lambda>img_tmp. fu_firmware_get_id h img_tmp = fu_firmware_get_id h img)
                       (images (h ! self))
                else images (h ! self));
             images2 =
               (if flags (h ! self) AND FU_FIRMWARE_FLAG_DEDUPE_IDX \<noteq> 0
                then remove_first
                       (\<lambda>img_tmp. fu_firmware_get_idx h img_tmp = fu_firmware_get_idx h img)
                       images1
                else images1);
             h1 = h[self := (h ! self)\<lparr>images := images2\<rparr>]
         in if images_max (h1 ! self) > 0 \<and> length (images (h1 ! self)) \<ge> images_max (h1 ! self)
            then (Some (G_ERROR \<lparr>code = FWUPD_ERROR_INVALID_DATA,
                                 message = ''too many images, limit is ''
                                           @ fmt_u (images_max (h1 ! self))\<rparr>), h1)
            else
              (let h2 = h1[self := (h1 ! self)\<lparr>images := images (h1 ! self) @ [img]\<rparr>];
                   h3 = fu_firmware_set_parent h2 img (Some self);
                   h4 = fu_firmware_set_depth h3 img (depth (h3 ! self) + 1)
               in (None, h4))))"

text \<open>
  GLib's \<^verbatim>\<open>g_strsplit (string, "|", 0)\<close>: the pieces between the delimiters, and no piece
  at all for the empty string.
\<close>

fun split_on :: "char \<Rightarrow> string \<Rightarrow> string list" where
  "split_on d [] = [[]]"
| "split_on d (c # cs) =
     (if c = d then [] # split_on d cs
      else (case split_on d cs of
              [] \<Rightarrow> [[c]]
            | piece # pieces \<Rightarrow> (c # piece) # pieces))"

definition g_strsplit :: "string \<Rightarrow> char \<Rightarrow> string list" where
  "g_strsplit s d = (if s = [] then [] else split_on d s)"

text \<open>
  GLib's \<^verbatim>\<open>g_pattern_match_simple (pattern, string)\<close>: \<^verbatim>\<open>*\<close> stands for any run of
  characters, the empty one included, \<^verbatim>\<open>?\<close> for any one character, and every other
  character for itself. The characters of an id are single bytes here.
\<close>

fun g_pattern_match_simple :: "string \<Rightarrow> string \<Rightarrow> bool" where
  "g_pattern_match_simple [] s = (s = [])"
| "g_pattern_match_simple (p # ps) s =
     (if p = CHR ''*''
      then g_pattern_match_simple ps s
           \<or> (case s of [] \<Rightarrow> False | c # cs \<Rightarrow> g_pattern_match_simple (p # ps) cs)
      else (case s of
              [] \<Rightarrow> False
            | c # cs \<Rightarrow> (p = CHR ''?'' \<or> p = c) \<and> g_pattern_match_simple ps cs))"

text \<open>
  The inner loop of \<^verbatim>\<open>fu_firmware_get_image_by_id\<close> over the pieces of the split id: an
  image without an id is skipped for every piece.
\<close>

fun match_split :: "string list \<Rightarrow> string option \<Rightarrow> bool" where
  "match_split [] img_id = False"
| "match_split (piece # pieces) img_id =
     (case img_id of
        None \<Rightarrow> match_split pieces img_id
      | Some s \<Rightarrow> if g_pattern_match_simple piece s then True else match_split pieces img_id)"

text \<open>The outer loops over \<^verbatim>\<open>priv->images\<close>: the first image that satisfies the test.\<close>

fun first_image :: "(nat \<Rightarrow> bool) \<Rightarrow> nat list \<Rightarrow> nat option" where
  "first_image P [] = None"
| "first_image P (img # imgs) = (if P img then Some img else first_image P imgs)"

definition fu_firmware_get_image_by_id :: "heap \<Rightarrow> nat \<Rightarrow> string option \<Rightarrow> failure + nat" where
  "fu_firmware_get_image_by_id h self id_opt =
     (if \<not> FU_IS_FIRMWARE h self then Inl G_CRITICAL
      else
        (case id_opt of
           Some ident \<Rightarrow>
             (let split = g_strsplit ident CHR ''|''
              in case first_image (\<lambda>img. match_split split (fu_firmware_get_id h img))
                        (images (h ! self)) of
                   Some img \<Rightarrow> Inr img
                 | None \<Rightarrow>
                     Inl (G_ERROR \<lparr>code = FWUPD_ERROR_NOT_FOUND,
                                   message = ''no image id '' @ ident @ '' found in firmware''\<rparr>))
         | None \<Rightarrow>
             (case first_image (\<lambda>img. fu_firmware_get_id h img = None) (images (h ! self)) of
                Some img \<Rightarrow> Inr img
              | None \<Rightarrow>
                  Inl (G_ERROR \<lparr>code = FWUPD_ERROR_NOT_FOUND,
                                message = ''no NULL image id found in firmware''\<rparr>))))"

text \<open>
  A chain of nodes: \<open>n\<close> times, a fresh node is created and added to the deepest node.
  The result is the store and the deepest node, or the failure of the first
  \<^verbatim>\<open>fu_firmware_add_image_full\<close> that fails.
\<close>

fun nest_images :: "nat \<Rightarrow> heap \<Rightarrow> nat \<Rightarrow> failure + heap \<times> nat" where
  "nest_images 0 h deepest = Inr (h, deepest)"
| "nest_images (Suc n) h deepest =
     (case fu_firmware_new h of
        (h1, img) \<Rightarrow>
          (case fu_firmware_add_image_full h1 deepest img of
             (Some e, h2) \<Rightarrow> Inl e
           | (None, h2) \<Rightarrow> nest_images n h2 img))"

section \<open>Vocabulary of the properties\<close>

text \<open>
  A patch fits a buffer when its replacement range lies inside it. The key of a patch is
  its offset and the size of its blob. \<open>patch_list\<close> reads \<^verbatim>\<open>priv->patches\<close>, a
  \<^verbatim>\<open>NULL\<close> array holding no patch. \<open>patch_error\<close> is the error for a patch that does
  not fit.
\<close>

definition patch_fits :: "guint8 list \<Rightarrow> FuFirmwarePatch \<Rightarrow> bool" where
  "patch_fits buf ptch = (ptch_offset ptch + g_bytes_get_size (ptch_blob ptch) \<le> length buf)"


definition patch_list :: "FuFirmware \<Rightarrow> FuFirmwarePatch list" where
  "patch_list self = (case patches self of None \<Rightarrow> [] | Some ps \<Rightarrow> ps)"

definition patch_error :: "FuFirmwarePatch \<Rightarrow> GError" where
  "patch_error ptch =
     \<lparr>code = FWUPD_ERROR_WRITE,
      message = ''failed to apply patch @0x'' @ fmt_x (to_guint (ptch_offset ptch))
                @ '': attempted to write outside of the buffer''\<rparr>"

text \<open>
  The error of a second parse. A hook keeps the mark of a parsed node when it never
  clears \<^verbatim>\<open>FU_FIRMWARE_FLAG_DONE_PARSE\<close>; the interface of the node offers
  \<^verbatim>\<open>fu_firmware_add_flag\<close> and no way to remove a flag.
\<close>

definition reuse_error :: GError where
  "reuse_error = \<lparr>code = FWUPD_ERROR_NOT_SUPPORTED, message = ''firmware object cannot be reused''\<rparr>"

definition hook_keeps_done_parse ::
  "(FuFirmware \<Rightarrow> GInputStream \<Rightarrow> 64 word \<Rightarrow> GError option \<times> FuFirmware) \<Rightarrow> bool" where
  "hook_keeps_done_parse hook =
     (\<forall>self partial_stream fl.
        fu_firmware_has_flag self FU_FIRMWARE_FLAG_DONE_PARSE
        \<longrightarrow> fu_firmware_has_flag (snd (hook self partial_stream fl)) FU_FIRMWARE_FLAG_DONE_PARSE)"

definition klass_keeps_done_parse :: "FuFirmwareClass \<Rightarrow> bool" where
  "klass_keeps_done_parse klass =
     ((case tokenize klass of None \<Rightarrow> True | Some t \<Rightarrow> hook_keeps_done_parse t)
      \<and> (case parse klass of None \<Rightarrow> True | Some p \<Rightarrow> hook_keeps_done_parse p))"

text \<open>
  One candidate of the probe chain: the parse of a fresh object of the type, and the
  error of a candidate that failed. \<open>error_all_step\<close> is what a failure does to
  \<^verbatim>\<open>error_all\<close>, and \<open>aggregate_messages\<close> the text that the failures leave, the last
  one first.
\<close>

definition try_gtype :: "nat \<Rightarrow> GInputStream \<Rightarrow> nat \<Rightarrow> 64 word \<Rightarrow> GType \<Rightarrow> GError option \<times> FuFirmware" where
  "try_gtype blob_ptr st off fl gtype =
     fu_firmware_parse_stream (klass_of gtype) blob_ptr (g_object_new gtype) st off fl"

definition gtype_error :: "nat \<Rightarrow> GInputStream \<Rightarrow> nat \<Rightarrow> 64 word \<Rightarrow> GType \<Rightarrow> GError" where
  "gtype_error blob_ptr st off fl gtype = the (fst (try_gtype blob_ptr st off fl gtype))"

definition aggregate_messages :: "string list \<Rightarrow> string" where
  "aggregate_messages msgs = concat (map (\<lambda>m. m @ '': '') (rev (tl msgs))) @ hd msgs"

definition error_all_step :: "GError option \<Rightarrow> GError \<Rightarrow> GError option" where
  "error_all_step error_all error_local =
     (case error_all of
        None \<Rightarrow> Some error_local
      | Some ea \<Rightarrow> Some (g_prefix_error ea (message error_local @ '': '')))"

text \<open>
  An id matches the id of an image when the image has an id and one of the pieces of
  the split id, as a pattern, matches it.
\<close>

definition id_matches :: "string \<Rightarrow> string option \<Rightarrow> bool" where
  "id_matches ident img_id =
     (case img_id of
        None \<Rightarrow> False
      | Some s \<Rightarrow> \<exists>piece \<in> set (g_strsplit ident CHR ''|''). g_pattern_match_simple piece s)"

text \<open>
  \<open>dedupe_images\<close> is the array of images after the two dedupe loops of
  \<^verbatim>\<open>fu_firmware_add_image_full\<close>. \<open>images_with_id\<close> and \<open>images_with_idx\<close> are the images
  of a node with a given id or index, in the order of the array. \<open>can_add_image\<close>
  gathers what a successful \<^verbatim>\<open>fu_firmware_add_image_full\<close> of another object needs: both
  objects exist, the parent is no deeper than the limit, and after the dedupe loops it
  holds fewer images than a nonzero \<^verbatim>\<open>images_max\<close> allows.
  \<open>nest_depths\<close> builds a chain of \<open>n\<close> levels below a fresh root and reads the
  deepest node and the depth of every node, in the order of creation.
\<close>

definition dedupe_images :: "heap \<Rightarrow> nat \<Rightarrow> nat \<Rightarrow> nat list" where
  "dedupe_images h self img =
     (let images1 =
            (if flags (h ! self) AND FU_FIRMWARE_FLAG_DEDUPE_ID \<noteq> 0
             then remove_first
                    (\<lambda>img_tmp. fu_firmware_get_id h img_tmp = fu_firmware_get_id h img)
                    (images (h ! self))
             else images (h ! self))
      in if flags (h ! self) AND FU_FIRMWARE_FLAG_DEDUPE_IDX \<noteq> 0
         then remove_first
                (\<lambda>img_tmp. fu_firmware_get_idx h img_tmp = fu_firmware_get_idx h img)
                images1
         else images1)"



definition can_add_image :: "heap \<Rightarrow> nat \<Rightarrow> nat \<Rightarrow> bool" where
  "can_add_image h self img =
     (FU_IS_FIRMWARE h self \<and> FU_IS_FIRMWARE h img \<and> img \<noteq> self
      \<and> depth (h ! self) \<le> FU_FIRMWARE_IMAGE_DEPTH_MAX
      \<and> (images_max (h ! self) = 0 \<or> length (dedupe_images h self img) < images_max (h ! self)))"

definition nest_depths :: "nat \<Rightarrow> (failure + nat \<times> 32 word list)" where
  "nest_depths n =
     (case nest_images n [fu_firmware_init] 0 of
        Inl e \<Rightarrow> Inl e
      | Inr (h, deepest) \<Rightarrow> Inr (deepest, map (fu_firmware_get_depth h) [0..<length h]))"

section \<open>Example nodes\<close>

definition example_stream :: GInputStream where
  "example_stream = \<lparr>stream_data = [1, 2, 3], stream_size_error = None\<rparr>"

definition example_stream_node :: FuFirmware where
  "example_stream_node =
     fu_firmware_init\<lparr>stream := Some example_stream, streamsz := 3,
       patches := Some [\<lparr>ptch_offset = 0, ptch_blob = \<lparr>bytes_ptr = 1, bytes_data = [9]\<rparr>\<rparr>]\<rparr>"

definition example_buffer_node :: FuFirmware where
  "example_buffer_node = fu_firmware_init\<lparr>bytes := Some \<lparr>bytes_ptr = 1, bytes_data = [0, 0, 0, 0]\<rparr>\<rparr>"

definition example_blob_aa :: GBytes where
  "example_blob_aa = \<lparr>bytes_ptr = 2, bytes_data = [0xAA]\<rparr>"


definition example_misfit_patch :: FuFirmwarePatch where
  "example_misfit_patch = \<lparr>ptch_offset = 5, ptch_blob = \<lparr>bytes_ptr = 4, bytes_data = [7]\<rparr>\<rparr>"

definition example_patched_node :: FuFirmware where
  "example_patched_node =
     fu_firmware_init\<lparr>bytes := Some \<lparr>bytes_ptr = 1, bytes_data = [1, 2, 3]\<rparr>,
       patches := Some [\<lparr>ptch_offset = 1, ptch_blob = example_blob_aa\<rparr>, example_misfit_patch]\<rparr>"

definition example_far_patch_node :: FuFirmware where
  "example_far_patch_node =
     fu_firmware_init\<lparr>bytes := Some \<lparr>bytes_ptr = 1, bytes_data = [0]\<rparr>,
       patches := Some [\<lparr>ptch_offset = 4294967296, ptch_blob = \<lparr>bytes_ptr = 2, bytes_data = [1]\<rparr>\<rparr>]\<rparr>"

definition example_failing_klass :: FuFirmwareClass where
  "example_failing_klass =
     \<lparr>validate = None, tokenize = None,
      parse = Some (\<lambda>self partial_stream fl.
                (Some \<lparr>code = FWUPD_ERROR_INTERNAL, message = ''parse failed''\<rparr>,
                 self\<lparr>fw_id := Some ''partial''\<rparr>)),
      check_compatible = None\<rparr>"

definition example_stream4 :: GInputStream where
  "example_stream4 = \<lparr>stream_data = [1, 2, 3, 4], stream_size_error = None\<rparr>"


definition example_raw_klass :: FuFirmwareClass where
  "example_raw_klass = \<lparr>validate = None, tokenize = None, parse = None, check_compatible = None\<rparr>"

definition example_stream5 :: GInputStream where
  "example_stream5 = \<lparr>stream_data = [1, 2, 3, 4, 5], stream_size_error = None\<rparr>"

definition example_stream6 :: GInputStream where
  "example_stream6 = \<lparr>stream_data = [1, 2, 3, 4, 5, 6], stream_size_error = None\<rparr>"

definition example_stream8 :: GInputStream where
  "example_stream8 = \<lparr>stream_data = [1, 2, 3, 4, 5, 6, 7, 8], stream_size_error = None\<rparr>"

definition example_aligned_node :: FuFirmware where
  "example_aligned_node = fu_firmware_init\<lparr>alignment := 2\<rparr>"

definition misaligned_error :: GError where
  "misaligned_error =
     \<lparr>code = FWUPD_ERROR_INVALID_FILE, message = ''raw firmware is not aligned to 0x4 (4 bytes)''\<rparr>"

definition example_hook_error :: GError where
  "example_hook_error = \<lparr>code = FWUPD_ERROR_INTERNAL, message = ''parse failed''\<rparr>"

definition example_half_parsed_node :: FuFirmware where
  "example_half_parsed_node =
     fu_firmware_init\<lparr>flags := 0x10, streamsz := 4, fw_id := Some ''partial''\<rparr>"

definition example_capped_node :: FuFirmware where
  "example_capped_node = fu_firmware_init\<lparr>size_max := 2\<rparr>"

definition example_gtype_rejecting :: "string \<Rightarrow> GType" where
  "example_gtype_rejecting msg =
     \<lparr>instance_init = (\<lambda>self. self),
      klass_of = \<lparr>validate = Some (\<lambda>self st off.
                                 Some \<lparr>code = FWUPD_ERROR_INVALID_FILE, message = msg\<rparr>),
                  tokenize = None, parse = None, check_compatible = None\<rparr>\<rparr>"

definition example_gtype_accepting :: GType where
  "example_gtype_accepting =
     \<lparr>instance_init = (\<lambda>self. fu_firmware_add_flag self FU_FIRMWARE_FLAG_HAS_CHECKSUM),
      klass_of = \<lparr>validate = Some (\<lambda>self st off. None),
                  tokenize = None, parse = None, check_compatible = None\<rparr>\<rparr>"

definition example_tree :: heap where
  "example_tree =
     [fu_firmware_init\<lparr>images := [1, 2, 3]\<rparr>,
      fu_firmware_init\<lparr>fw_id := Some ''header''\<rparr>,
      fu_firmware_init,
      fu_firmware_init\<lparr>fw_id := Some ''payload.elf''\<rparr>]"




definition example_sized_node :: FuFirmware where
  "example_sized_node = fu_firmware_init\<lparr>streamsz := 4\<rparr>"

definition example_cached_node :: FuFirmware where
  "example_cached_node =
     fu_firmware_init\<lparr>streamsz := 4, bytes := Some \<lparr>bytes_ptr = 7, bytes_data = [1, 2, 3, 4]\<rparr>,
       stream := Some example_stream4\<rparr>"

section \<open>Evaluating the pipeline on examples\<close>

lemmas parse_eval =
  fu_firmware_parse_stream_def parse_stream_checks_def parse_stream_save_def
  parse_stream_cache_def parse_stream_hooks_def fu_firmware_validate_for_offset_def
  fu_input_stream_size_def fu_partial_input_stream_new_def fu_input_stream_read_bytes_def
  fu_firmware_has_flag_def fu_firmware_add_flag_def fu_firmware_set_bytes_def
  FU_FIRMWARE_FLAG_DONE_PARSE_def FU_FIRMWARE_FLAG_HAS_CHECK_COMPATIBLE_def
  FU_FIRMWARE_PARSE_FLAG_CACHE_BLOB_def FU_FIRMWARE_PARSE_FLAG_CACHE_STREAM_def
  fu_firmware_init_def Let_def

section \<open>The depth of nested images\<close>

text \<open>
  C1. Below a fresh root, 50 levels of images nest, and the depth of each is its level.
  The 51st \<^verbatim>\<open>fu_firmware_add_image_full\<close>, on the node at depth 50, succeeds as well and
  gives an image of depth 51; the 52nd is the first to fail, with
  \<^verbatim>\<open>FWUPD_ERROR_INVALID_DATA\<close> and the limit 50 in its message.
\<close>

theorem C1_depth_limit_off_by_one:
  "nest_depths 50 = Inr (50, map of_nat [0..<51])
   \<and> nest_depths 51 = Inr (51, map of_nat [0..<52])
   \<and> nest_depths 52
       = Inl (G_ERROR \<lparr>code = FWUPD_ERROR_INVALID_DATA,
                       message = ''images are nested too deep, limit is 50''\<rparr>)"
  by code_simp

section \<open>Alignment of raw firmware\<close>

lemma fmt_x_4: "fmt_x (to_guint 4) = ''4''"
  by (simp add: fmt_x.simps hex_digit_def to_guint_def)

lemma g_format_size_iec_4: "g_format_size_iec 4 = ''4 bytes''"
  by (simp add: g_format_size_iec_def format_bytes_def fmt_u.simps hex_digit_def)

text \<open>
  C2. A node without hooks and with alignment 2, that is 4 bytes: a stream of length 5
  is refused with \<^verbatim>\<open>FWUPD_ERROR_INVALID_FILE\<close> and a stream of length 8 parses, both at
  offset 0. At offset 3 of the stream of length 8 the remaining 5 bytes parse, and at
  offset 2 of a stream of length 6 the remaining 4 bytes are refused: the check reads the
  size of the whole stream.
\<close>

theorem C2_alignment_checks_whole_stream:
  "fst (fu_firmware_parse_stream example_raw_klass 0 example_aligned_node example_stream5 0 0)
     = Some misaligned_error
   \<and> fst (fu_firmware_parse_stream example_raw_klass 0 example_aligned_node example_stream8 0 0)
     = None
   \<and> fst (fu_firmware_parse_stream example_raw_klass 0 example_aligned_node example_stream8 3 0)
     = None
   \<and> streamsz (snd (fu_firmware_parse_stream example_raw_klass 0 example_aligned_node example_stream8 3 0))
     = 5
   \<and> fst (fu_firmware_parse_stream example_raw_klass 0 example_aligned_node example_stream6 2 0)
     = Some misaligned_error
   \<and> streamsz (snd (fu_firmware_parse_stream example_raw_klass 0 example_aligned_node example_stream6 2 0))
     = 4"
  by (simp add: parse_eval example_raw_klass_def example_aligned_node_def example_stream5_def
      example_stream6_def example_stream8_def misaligned_error_def fmt_x_4 g_format_size_iec_4)

section \<open>Buffer and stream\<close>

text \<open>
  C3, as amended. \<^verbatim>\<open>fu_firmware_set_bytes\<close> with a buffer other than the one the node
  holds stores the buffer and clears the stream. \<^verbatim>\<open>fu_firmware_set_stream\<close> stores the
  stream and leaves the buffer in place. A parse with both cache flags stores the bytes of
  the view and the view itself. So a node can hold a buffer and a stream at once.
\<close>

theorem C3_payload_representations:
  "((case bytes self of None \<Rightarrow> True | Some old \<Rightarrow> bytes_ptr old \<noteq> bytes_ptr b)
      \<longrightarrow> bytes (fu_firmware_set_bytes self b) = Some b
          \<and> stream (fu_firmware_set_bytes self b) = None)
   \<and> (\<forall>self'. fu_firmware_set_stream self st_opt = (None, self')
        \<longrightarrow> bytes self' = bytes self \<and> stream self' = st_opt)
   \<and> (\<forall>self6. fl AND FU_FIRMWARE_PARSE_FLAG_CACHE_BLOB \<noteq> 0
        \<longrightarrow> fl AND FU_FIRMWARE_PARSE_FLAG_CACHE_STREAM \<noteq> 0
        \<longrightarrow> parse_stream_cache bp self4 partial_stream fl = Inr self6
        \<longrightarrow> bytes self6 \<noteq> None \<and> stream self6 = Some partial_stream)"
proof -
  have a: "bytes (fu_firmware_set_bytes self b) = Some b \<and> stream (fu_firmware_set_bytes self b) = None"
    if "case bytes self of None \<Rightarrow> True | Some old \<Rightarrow> bytes_ptr old \<noteq> bytes_ptr b"
    using that by (simp add: fu_firmware_set_bytes_def split: option.splits)
  have s: "bytes self' = bytes self \<and> stream self' = st_opt"
    if "fu_firmware_set_stream self st_opt = (None, self')" for self'
    using that by (auto simp: fu_firmware_set_stream_def split: option.splits sum.splits)
  have c: "bytes self6 \<noteq> None \<and> stream self6 = Some partial_stream"
    if h: "fl AND FU_FIRMWARE_PARSE_FLAG_CACHE_BLOB \<noteq> 0"
      "fl AND FU_FIRMWARE_PARSE_FLAG_CACHE_STREAM \<noteq> 0"
      "parse_stream_cache bp self4 partial_stream fl = Inr self6" for self6
  proof (cases "fu_input_stream_read_bytes partial_stream 0 (streamsz self4)")
    case (Inl e)
    with h show ?thesis by (simp add: parse_stream_cache_def)
  next
    case (Inr d)
    with h have "self6 = (fu_firmware_set_bytes self4 \<lparr>bytes_ptr = bp, bytes_data = d\<rparr>)
                   \<lparr>stream := Some partial_stream\<rparr>"
      by (simp add: parse_stream_cache_def)
    then show ?thesis by (simp add: fu_firmware_set_bytes_def split: option.splits)
  qed
  show ?thesis using a s c by blast
qed

theorem C3_payload_representations_witness:
  "bytes (fu_firmware_set_bytes example_stream_node example_blob_aa) = Some example_blob_aa
   \<and> stream (fu_firmware_set_bytes example_stream_node example_blob_aa) = None
   \<and> stream example_stream_node = Some example_stream
   \<and> fu_firmware_set_stream example_buffer_node (Some example_stream)
       = (None, example_buffer_node\<lparr>streamsz := 3, stream := Some example_stream\<rparr>)
   \<and> bytes (example_buffer_node\<lparr>streamsz := 3, stream := Some example_stream\<rparr>)
       = bytes example_buffer_node
   \<and> bytes example_buffer_node \<noteq> None
   \<and> parse_stream_cache 7 example_sized_node example_stream4 0xC00 = Inr example_cached_node
   \<and> bytes example_cached_node \<noteq> None
   \<and> stream example_cached_node = Some example_stream4"
proof -
  have n: "case bytes example_stream_node of None \<Rightarrow> True
           | Some old \<Rightarrow> bytes_ptr old \<noteq> bytes_ptr example_blob_aa"
    by (simp add: example_stream_node_def fu_firmware_init_def)
  have st: "stream example_stream_node = Some example_stream"
    by (simp add: example_stream_node_def fu_firmware_init_def)
  have ss: "fu_firmware_set_stream example_buffer_node (Some example_stream)
       = (None, example_buffer_node\<lparr>streamsz := 3, stream := Some example_stream\<rparr>)"
    by (simp add: fu_firmware_set_stream_def fu_input_stream_size_def example_stream_def)
  have bn: "bytes example_buffer_node \<noteq> None"
    by (simp add: example_buffer_node_def fu_firmware_init_def)
  note inst1 = C3_payload_representations [where self = example_stream_node and b = example_blob_aa]
  note inst2 = C3_payload_representations [where self = example_buffer_node and st_opt = "Some example_stream"]
  from inst1 [THEN conjunct1, rule_format, OF n]
  have a: "bytes (fu_firmware_set_bytes example_stream_node example_blob_aa) = Some example_blob_aa
          \<and> stream (fu_firmware_set_bytes example_stream_node example_blob_aa) = None" .
  from inst2 [THEN conjunct2, THEN conjunct1, rule_format, OF ss]
  have b: "bytes (example_buffer_node\<lparr>streamsz := 3, stream := Some example_stream\<rparr>)
             = bytes example_buffer_node
           \<and> stream (example_buffer_node\<lparr>streamsz := 3, stream := Some example_stream\<rparr>)
             = Some example_stream" .
  have fb: "(0xC00 :: 64 word) AND FU_FIRMWARE_PARSE_FLAG_CACHE_BLOB \<noteq> 0"
    and fs: "(0xC00 :: 64 word) AND FU_FIRMWARE_PARSE_FLAG_CACHE_STREAM \<noteq> 0"
    by (simp_all add: FU_FIRMWARE_PARSE_FLAG_CACHE_BLOB_def FU_FIRMWARE_PARSE_FLAG_CACHE_STREAM_def)
  have pc: "parse_stream_cache 7 example_sized_node example_stream4 0xC00 = Inr example_cached_node"
    by (simp add: parse_eval example_sized_node_def example_cached_node_def example_stream4_def)
  note inst3 = C3_payload_representations [where fl = "0xC00" and bp = 7
      and ?self4.0 = example_sized_node and partial_stream = example_stream4]
  from inst3 [THEN conjunct2, THEN conjunct2, rule_format, OF fb fs pc]
  have c: "bytes example_cached_node \<noteq> None \<and> stream example_cached_node = Some example_stream4" .
  from a st ss b bn pc c show ?thesis by simp
qed


theorem C3_both_payloads_counterexample:
  "bytes (snd (fu_firmware_set_stream (fu_firmware_set_bytes fu_firmware_init example_blob_aa)
                 (Some example_stream))) = Some example_blob_aa
   \<and> stream (snd (fu_firmware_set_stream (fu_firmware_set_bytes fu_firmware_init example_blob_aa)
                 (Some example_stream))) = Some example_stream
   \<and> fst (fu_firmware_parse_stream example_raw_klass 7 fu_firmware_init example_stream4 0 0xC00) = None
   \<and> bytes (snd (fu_firmware_parse_stream example_raw_klass 7 fu_firmware_init example_stream4 0 0xC00))
       = Some \<lparr>bytes_ptr = 7, bytes_data = [1, 2, 3, 4]\<rparr>
   \<and> stream (snd (fu_firmware_parse_stream example_raw_klass 7 fu_firmware_init example_stream4 0 0xC00))
       = Some example_stream4"
  by (simp add: parse_eval fu_firmware_set_stream_def example_raw_klass_def example_stream4_def
      example_stream_def example_blob_aa_def)

section \<open>Parsing once\<close>

lemma has_flag_add_same:
  "flag \<noteq> 0 \<Longrightarrow> fu_firmware_has_flag (fu_firmware_add_flag self flag) flag"
  by (simp add: fu_firmware_has_flag_def fu_firmware_add_flag_def word_greater_zero_iff)

lemma has_flag_add_other:
  "fu_firmware_has_flag self flag \<Longrightarrow> fu_firmware_has_flag (fu_firmware_add_flag self flag') flag"
  by (simp add: fu_firmware_has_flag_def fu_firmware_add_flag_def word_greater_zero_iff
      bit.conj_disj_distrib2 or_eq_0_iff)

lemma done_parse_nonzero: "FU_FIRMWARE_FLAG_DONE_PARSE \<noteq> 0"
  by (simp add: FU_FIRMWARE_FLAG_DONE_PARSE_def)

lemma has_flag_flags_eq:
  "flags self' = flags self \<Longrightarrow> fu_firmware_has_flag self' flag = fu_firmware_has_flag self flag"
  by (simp add: fu_firmware_has_flag_def)

lemma validate_for_offset_flags:
  assumes "fu_firmware_validate_for_offset klass self st off fl = Inr (off1, self1)"
  shows "flags self1 = flags self"
proof (cases "validate klass")
  case None
  with assms show ?thesis by (simp add: fu_firmware_validate_for_offset_def)
next
  case (Some v)
  have "self1 = self \<or> (\<exists>o'. self1 = fu_firmware_set_offset self o')"
    using assms Some
    by (simp add: fu_firmware_validate_for_offset_def split: option.splits if_splits sum.splits) auto
  then show ?thesis by (auto simp: fu_firmware_set_offset_def)
qed

lemma parse_stream_checks_flags:
  assumes "parse_stream_checks klass self st off fl = (r, self')"
  shows "flags self' = flags self"
proof (cases "fu_firmware_has_flag self FU_FIRMWARE_FLAG_DONE_PARSE")
  case True
  with assms show ?thesis by (simp add: parse_stream_checks_def)
next
  case nd: False
  show ?thesis
  proof (cases "fu_input_stream_size st")
    case (Inl e)
    with assms nd show ?thesis by (simp add: parse_stream_checks_def)
  next
    case (Inr sz)
    show ?thesis
    proof (cases "sz \<le> off")
      case True
      with assms nd Inr show ?thesis by (simp add: parse_stream_checks_def)
    next
      case gt: False
      show ?thesis
      proof (cases "fu_firmware_validate_for_offset klass self st off fl")
        case (Inl e)
        with assms nd Inr gt show ?thesis by (simp add: parse_stream_checks_def)
      next
        case v: (Inr p)
        obtain off1 self1 where p: "p = (off1, self1)" by (cases p)
        from assms nd Inr gt v p have "self' = self1\<lparr>streamsz := sz - off1\<rparr>"
          by (simp add: parse_stream_checks_def Let_def split: if_splits)
        moreover have "flags self1 = flags self"
          using validate_for_offset_flags v p by simp
        ultimately show ?thesis by simp
      qed
    qed
  qed
qed

lemma set_bytes_flags: "flags (fu_firmware_set_bytes self b) = flags self"
  by (simp add: fu_firmware_set_bytes_def)

lemma parse_stream_save_done:
  "parse_stream_save klass self2 st off1 = (r, self4) \<Longrightarrow>
   fu_firmware_has_flag self4 FU_FIRMWARE_FLAG_DONE_PARSE"
  by (auto simp: parse_stream_save_def Let_def has_flag_add_same done_parse_nonzero has_flag_add_other
      split: if_splits sum.splits)

lemma parse_stream_cache_flags:
  assumes "parse_stream_cache bp self4 ps fl = Inr self6"
  shows "flags self6 = flags self4"
proof (cases "fl AND FU_FIRMWARE_PARSE_FLAG_CACHE_BLOB \<noteq> 0")
  case False
  with assms show ?thesis by (auto simp: parse_stream_cache_def split: if_splits)
next
  case True
  show ?thesis
  proof (cases "fu_input_stream_read_bytes ps 0 (streamsz self4)")
    case (Inl e)
    with assms True show ?thesis by (simp add: parse_stream_cache_def)
  next
    case (Inr d)
    with assms True show ?thesis
      by (auto simp: parse_stream_cache_def set_bytes_flags split: if_splits)
  qed
qed


lemma parse_stream_hooks_done:
  assumes k: "klass_keeps_done_parse klass"
    and d: "fu_firmware_has_flag self6 FU_FIRMWARE_FLAG_DONE_PARSE"
  shows "fu_firmware_has_flag (snd (parse_stream_hooks klass self6 ps sz fl)) FU_FIRMWARE_FLAG_DONE_PARSE"
proof -
  define tk where "tk = (case tokenize klass of None \<Rightarrow> (None, self6) | Some t \<Rightarrow> t self6 ps fl)"
  have d7: "fu_firmware_has_flag (snd tk) FU_FIRMWARE_FLAG_DONE_PARSE"
    using k d by (auto simp: tk_def klass_keeps_done_parse_def hook_keeps_done_parse_def
        split: option.splits)
  obtain r7 self7 where t: "tk = (r7, self7)" by (cases tk)
  have h: "parse_stream_hooks klass self6 ps sz fl =
        (case tk of
          (Some e, self7) \<Rightarrow> (Some e, self7)
        | (None, self7) \<Rightarrow>
          (case parse klass of
             Some p \<Rightarrow> p self7 ps fl
           | None \<Rightarrow>
               if sz mod 2 ^ alignment self7 \<noteq> 0
               then (Some \<lparr>code = FWUPD_ERROR_INVALID_FILE,
                           message = ''raw firmware is not aligned to 0x''
                                     @ fmt_x (to_guint (2 ^ alignment self7)) @ '' (''
                                     @ g_format_size_iec (2 ^ alignment self7) @ '')''\<rparr>, self7)
               else (None, self7)))"
    unfolding parse_stream_hooks_def tk_def by (rule refl)
  show ?thesis
  proof (cases r7)
    case (Some e)
    with t d7 show ?thesis by (simp add: h)
  next
    case None
    show ?thesis
    proof (cases "parse klass")
      case (Some p)
      then have "hook_keeps_done_parse p" using k by (simp add: klass_keeps_done_parse_def)
      with d7 t have "fu_firmware_has_flag (snd (p self7 ps fl)) FU_FIRMWARE_FLAG_DONE_PARSE"
        by (simp add: hook_keeps_done_parse_def)
      with t None Some show ?thesis by (simp add: h)
    next
      case np: None
      with t None d7 show ?thesis by (simp add: h)
    qed
  qed
qed

lemma parse_stream_at_checks:
  "parse_stream_checks klass self st off fl = (Inl e, self2) \<Longrightarrow>
   fu_firmware_parse_stream klass bp self st off fl = (Some e, self2)"
  unfolding fu_firmware_parse_stream_def by (simp only: prod.case sum.case)

lemma parse_stream_at_save:
  "parse_stream_checks klass self st off fl = (Inr (sz, off1), self2) \<Longrightarrow>
   parse_stream_save klass self2 st off1 = (Inl e, self4) \<Longrightarrow>
   fu_firmware_parse_stream klass bp self st off fl = (Some e, self4)"
  unfolding fu_firmware_parse_stream_def by (simp only: prod.case sum.case)

lemma parse_stream_at_cache:
  "parse_stream_checks klass self st off fl = (Inr (sz, off1), self2) \<Longrightarrow>
   parse_stream_save klass self2 st off1 = (Inr ps, self4) \<Longrightarrow>
   parse_stream_cache bp self4 ps fl = Inl e \<Longrightarrow>
   fu_firmware_parse_stream klass bp self st off fl = (Some e, self4)"
  unfolding fu_firmware_parse_stream_def by (simp only: prod.case sum.case)

lemma parse_stream_at_hooks:
  "parse_stream_checks klass self st off fl = (Inr (sz, off1), self2) \<Longrightarrow>
   parse_stream_save klass self2 st off1 = (Inr ps, self4) \<Longrightarrow>
   parse_stream_cache bp self4 ps fl = Inr self6 \<Longrightarrow>
   fu_firmware_parse_stream klass bp self st off fl = parse_stream_hooks klass self6 ps sz fl"
  unfolding fu_firmware_parse_stream_def by (simp only: prod.case sum.case)

lemma parse_stream_reuse:
  "fu_firmware_has_flag self FU_FIRMWARE_FLAG_DONE_PARSE \<Longrightarrow>
   fu_firmware_parse_stream klass bp self st off fl = (Some reuse_error, self)"
proof -
  assume "fu_firmware_has_flag self FU_FIRMWARE_FLAG_DONE_PARSE"
  then have "parse_stream_checks klass self st off fl = (Inl reuse_error, self)"
    by (simp add: parse_stream_checks_def reuse_error_def)
  then show ?thesis by (rule parse_stream_at_checks)
qed

lemma parse_stream_past_checks_done:
  assumes k: "klass_keeps_done_parse klass"
    and c: "parse_stream_checks klass self st off fl = (Inr x, self2)"
  shows "fu_firmware_has_flag (snd (fu_firmware_parse_stream klass bp self st off fl))
           FU_FIRMWARE_FLAG_DONE_PARSE"
proof -
  obtain sz off1 where x: "x = (sz, off1)" by (cases x)
  note c' = c [unfolded x]
  obtain r4 self4 where s: "parse_stream_save klass self2 st off1 = (r4, self4)"
    by (cases "parse_stream_save klass self2 st off1")
  have d4: "fu_firmware_has_flag self4 FU_FIRMWARE_FLAG_DONE_PARSE"
    using s by (rule parse_stream_save_done)
  show ?thesis
  proof (cases r4)
    case (Inl e)
    have "fu_firmware_parse_stream klass bp self st off fl = (Some e, self4)"
      using c' s [unfolded Inl] by (rule parse_stream_at_save)
    with d4 show ?thesis by simp
  next
    case (Inr ps)
    note s' = s [unfolded Inr]
    show ?thesis
    proof (cases "parse_stream_cache bp self4 ps fl")
      case (Inl e)
      have "fu_firmware_parse_stream klass bp self st off fl = (Some e, self4)"
        using c' s' Inl by (rule parse_stream_at_cache)
      with d4 show ?thesis by simp
    next
      case c6: (Inr self6)
      have d6: "fu_firmware_has_flag self6 FU_FIRMWARE_FLAG_DONE_PARSE"
        using parse_stream_cache_flags [OF c6] d4 by (simp add: fu_firmware_has_flag_def)
      have "fu_firmware_parse_stream klass bp self st off fl
            = parse_stream_hooks klass self6 ps sz fl"
        using c' s' c6 by (rule parse_stream_at_hooks)
      with parse_stream_hooks_done [OF k d6] show ?thesis by simp
    qed
  qed
qed

text \<open>
  C4. A node that carries \<^verbatim>\<open>FU_FIRMWARE_FLAG_DONE_PARSE\<close> is refused with
  \<^verbatim>\<open>FWUPD_ERROR_NOT_SUPPORTED\<close>, "firmware object cannot be reused", and stays as it is.
  A parse that ends in one of the checks before the mark (reuse, size, validation, bounds
  on the remaining size) leaves the flags as they were. The node handed to the
  \<^verbatim>\<open>tokenize\<close> and \<^verbatim>\<open>parse\<close> hooks carries the mark. When the hooks keep the mark, every
  parse that got past the checks, failed or not, leaves a marked node, and any further
  parse of that node is refused.
\<close>

theorem C4_done_parse:
  "(fu_firmware_has_flag self FU_FIRMWARE_FLAG_DONE_PARSE
      \<longrightarrow> fu_firmware_parse_stream klass bp self st off fl = (Some reuse_error, self))
   \<and> (\<forall>e self'. parse_stream_checks klass self st off fl = (Inl e, self')
        \<longrightarrow> fu_firmware_parse_stream klass bp self st off fl = (Some e, self')
            \<and> flags self' = flags self)
   \<and> (\<forall>x self2 partial_stream self4 self6.
         parse_stream_checks klass self st off fl = (Inr x, self2)
         \<longrightarrow> parse_stream_save klass self2 st (snd x) = (Inr partial_stream, self4)
         \<longrightarrow> parse_stream_cache bp self4 partial_stream fl = Inr self6
         \<longrightarrow> fu_firmware_has_flag self6 FU_FIRMWARE_FLAG_DONE_PARSE
             \<and> fu_firmware_parse_stream klass bp self st off fl
                 = parse_stream_hooks klass self6 partial_stream (fst x) fl)
   \<and> (klass_keeps_done_parse klass
        \<longrightarrow> (\<forall>x self2. parse_stream_checks klass self st off fl = (Inr x, self2)
              \<longrightarrow> fu_firmware_has_flag (snd (fu_firmware_parse_stream klass bp self st off fl))
                    FU_FIRMWARE_FLAG_DONE_PARSE
                  \<and> (\<forall>klass' bp' st' off' fl'.
                        fu_firmware_parse_stream klass' bp'
                          (snd (fu_firmware_parse_stream klass bp self st off fl)) st' off' fl'
                        = (Some reuse_error,
                           snd (fu_firmware_parse_stream klass bp self st off fl)))))"
proof -
  have b: "fu_firmware_parse_stream klass bp self st off fl = (Some e, self')
            \<and> flags self' = flags self"
    if "parse_stream_checks klass self st off fl = (Inl e, self')" for e self'
    using parse_stream_at_checks [OF that] parse_stream_checks_flags [OF that]
    by simp
  have c: "fu_firmware_has_flag self6 FU_FIRMWARE_FLAG_DONE_PARSE
             \<and> fu_firmware_parse_stream klass bp self st off fl
                 = parse_stream_hooks klass self6 partial_stream (fst x) fl"
    if h: "parse_stream_checks klass self st off fl = (Inr x, self2)"
      "parse_stream_save klass self2 st (snd x) = (Inr partial_stream, self4)"
      "parse_stream_cache bp self4 partial_stream fl = Inr self6"
    for x self2 partial_stream self4 self6
  proof -
    have "fu_firmware_has_flag self4 FU_FIRMWARE_FLAG_DONE_PARSE"
      using h(2) by (rule parse_stream_save_done)
    then have "fu_firmware_has_flag self6 FU_FIRMWARE_FLAG_DONE_PARSE"
      using parse_stream_cache_flags [OF h(3)] by (simp add: fu_firmware_has_flag_def)
    moreover have "parse_stream_checks klass self st off fl = (Inr (fst x, snd x), self2)"
      using h(1) by simp
    then have "fu_firmware_parse_stream klass bp self st off fl
                 = parse_stream_hooks klass self6 partial_stream (fst x) fl"
      using h(2,3) by (rule parse_stream_at_hooks)
    ultimately show ?thesis by simp
  qed
  have d: "fu_firmware_has_flag (snd (fu_firmware_parse_stream klass bp self st off fl))
                    FU_FIRMWARE_FLAG_DONE_PARSE
                  \<and> (\<forall>klass' bp' st' off' fl'.
                        fu_firmware_parse_stream klass' bp'
                          (snd (fu_firmware_parse_stream klass bp self st off fl)) st' off' fl'
                        = (Some reuse_error,
                           snd (fu_firmware_parse_stream klass bp self st off fl)))"
    if "klass_keeps_done_parse klass" "parse_stream_checks klass self st off fl = (Inr x, self2)"
    for x self2
    using parse_stream_past_checks_done [OF that] by (simp add: parse_stream_reuse)
  show ?thesis
    using parse_stream_reuse [of self klass bp st off fl] b c d by blast
qed


theorem C4_done_parse_witness:
  "klass_keeps_done_parse example_failing_klass
   \<and> fu_firmware_parse_stream example_failing_klass 0 fu_firmware_init example_stream4 0 0
       = (Some example_hook_error, example_half_parsed_node)
   \<and> fu_firmware_has_flag example_half_parsed_node FU_FIRMWARE_FLAG_DONE_PARSE
   \<and> fu_firmware_parse_stream example_failing_klass 0 example_half_parsed_node example_stream4 0 0
       = (Some reuse_error, example_half_parsed_node)
   \<and> code (the (fst (fu_firmware_parse_stream example_failing_klass 0 example_capped_node
                      example_stream4 0 0))) = FWUPD_ERROR_INVALID_FILE
   \<and> \<not> fu_firmware_has_flag
          (snd (fu_firmware_parse_stream example_failing_klass 0 example_capped_node
                  example_stream4 0 0)) FU_FIRMWARE_FLAG_DONE_PARSE"
proof -
  have k: "klass_keeps_done_parse example_failing_klass"
    by (simp add: klass_keeps_done_parse_def hook_keeps_done_parse_def example_failing_klass_def
        fu_firmware_has_flag_def)
  have c: "parse_stream_checks example_failing_klass fu_firmware_init example_stream4 0 0
           = (Inr (4, 0), fu_firmware_init\<lparr>streamsz := 4\<rparr>)"
    by (simp add: parse_eval example_failing_klass_def example_stream4_def)
  have p: "fu_firmware_parse_stream example_failing_klass 0 fu_firmware_init example_stream4 0 0
           = (Some example_hook_error, example_half_parsed_node)"
    by (simp add: parse_eval example_failing_klass_def example_stream4_def example_hook_error_def
        example_half_parsed_node_def)
  have "\<exists>err. parse_stream_checks example_failing_klass example_capped_node example_stream4 0 0
           = (Inl err, example_capped_node\<lparr>streamsz := 4\<rparr>) \<and> code err = FWUPD_ERROR_INVALID_FILE"
    by (simp add: parse_eval example_failing_klass_def example_stream4_def example_capped_node_def)
  then obtain err where
    e: "parse_stream_checks example_failing_klass example_capped_node example_stream4 0 0
           = (Inl err, example_capped_node\<lparr>streamsz := 4\<rparr>)"
    and ec: "code err = FWUPD_ERROR_INVALID_FILE"
    by blast
  have nf: "\<not> fu_firmware_has_flag example_capped_node FU_FIRMWARE_FLAG_DONE_PARSE"
    by (simp add: example_capped_node_def fu_firmware_has_flag_def fu_firmware_init_def)
  note inst1 = C4_done_parse [of fu_firmware_init example_failing_klass 0 example_stream4 0 0]
  note inst2 = C4_done_parse [of example_capped_node example_failing_klass 0 example_stream4 0 0]
  from inst1 [THEN conjunct2, THEN conjunct2, THEN conjunct2, rule_format, OF k c]
  have second: "fu_firmware_has_flag
                  (snd (fu_firmware_parse_stream example_failing_klass 0 fu_firmware_init
                          example_stream4 0 0)) FU_FIRMWARE_FLAG_DONE_PARSE
              \<and> (\<forall>klass' bp' st' off' fl'.
                    fu_firmware_parse_stream klass' bp'
                      (snd (fu_firmware_parse_stream example_failing_klass 0 fu_firmware_init
                              example_stream4 0 0)) st' off' fl'
                    = (Some reuse_error,
                       snd (fu_firmware_parse_stream example_failing_klass 0 fu_firmware_init
                              example_stream4 0 0)))" .
  from inst2 [THEN conjunct2, THEN conjunct1, rule_format, OF e]
  have early: "fu_firmware_parse_stream example_failing_klass 0 example_capped_node example_stream4 0 0
          = (Some err, example_capped_node\<lparr>streamsz := 4\<rparr>)
          \<and> flags (example_capped_node\<lparr>streamsz := 4\<rparr>) = flags example_capped_node" .
  from early nf ec have e2: "code (the (fst (fu_firmware_parse_stream example_failing_klass 0 example_capped_node
                      example_stream4 0 0))) = FWUPD_ERROR_INVALID_FILE
   \<and> \<not> fu_firmware_has_flag
          (snd (fu_firmware_parse_stream example_failing_klass 0 example_capped_node
                  example_stream4 0 0)) FU_FIRMWARE_FLAG_DONE_PARSE"
    by (simp add: fu_firmware_has_flag_def)
  from second p have s2: "fu_firmware_has_flag example_half_parsed_node FU_FIRMWARE_FLAG_DONE_PARSE
     \<and> fu_firmware_parse_stream example_failing_klass 0 example_half_parsed_node example_stream4 0 0
       = (Some reuse_error, example_half_parsed_node)"
    by simp
  from k p s2 e2 show ?thesis by simp
qed

section \<open>Patched reads\<close>

lemma memcpy_fits:
  "patch_fits buf ptch \<Longrightarrow>
   fu_memcpy_safe buf (ptch_offset ptch) (bytes_data (ptch_blob ptch)) 0 (g_bytes_get_size (ptch_blob ptch))
   = Inr (take (ptch_offset ptch) buf @ bytes_data (ptch_blob ptch)
          @ drop (ptch_offset ptch + g_bytes_get_size (ptch_blob ptch)) buf)"
  by (simp add: fu_memcpy_safe_def patch_fits_def g_bytes_get_size_def)

lemma memcpy_misfit:
  "\<not> patch_fits buf ptch \<Longrightarrow>
   fu_memcpy_safe buf (ptch_offset ptch) (bytes_data (ptch_blob ptch)) 0 (g_bytes_get_size (ptch_blob ptch))
   = Inl \<lparr>code = FWUPD_ERROR_WRITE, message = ''attempted to write outside of the buffer''\<rparr>"
  by (simp add: fu_memcpy_safe_def patch_fits_def g_bytes_get_size_def)

lemma memcpy_length:
  "fu_memcpy_safe dst d src s n = Inr buf' \<Longrightarrow> length buf' = length dst"
  by (auto simp: fu_memcpy_safe_def split: if_splits)

lemma patch_fits_length: "length buf' = length buf \<Longrightarrow> patch_fits buf' = patch_fits buf"
  by (simp add: patch_fits_def fun_eq_iff)

lemma apply_patches_first_misfit:
  "find (\<lambda>ptch. \<not> patch_fits buf ptch) ps = Some ptch \<Longrightarrow>
   apply_patches buf ps = Inl (patch_error ptch)"
proof (induction ps arbitrary: buf)
  case Nil
  then show ?case by simp
next
  case (Cons q ps)
  show ?case
  proof (cases "patch_fits buf q")
    case True
    let ?buf' = "take (ptch_offset q) buf @ bytes_data (ptch_blob q)
          @ drop (ptch_offset q + g_bytes_get_size (ptch_blob q)) buf"
    have len: "length ?buf' = length buf"
      using True by (auto simp: patch_fits_def g_bytes_get_size_def)
    from Cons.prems True have "find (\<lambda>ptch. \<not> patch_fits buf ptch) ps = Some ptch" by simp
    then have "find (\<lambda>ptch. \<not> patch_fits ?buf' ptch) ps = Some ptch"
      by (simp add: patch_fits_length [OF len])
    then have "apply_patches ?buf' ps = Inl (patch_error ptch)" by (rule Cons.IH)
    then show ?thesis by (simp add: memcpy_fits [OF True])
  next
    case False
    with Cons.prems have "q = ptch" by simp
    with False show ?thesis
      by (simp add: memcpy_misfit patch_error_def g_prefix_error_def)
  qed
qed

lemma apply_patches_all_fit:
  "find (\<lambda>ptch. \<not> patch_fits buf ptch) ps = None \<Longrightarrow>
   \<exists>buf'. apply_patches buf ps = Inr buf' \<and> length buf' = length buf"
proof (induction ps arbitrary: buf)
  case Nil
  then show ?case by simp
next
  case (Cons q ps)
  from Cons.prems have fit: "patch_fits buf q"
    by (simp split: if_splits)
  let ?buf' = "take (ptch_offset q) buf @ bytes_data (ptch_blob q)
          @ drop (ptch_offset q + g_bytes_get_size (ptch_blob q)) buf"
  have len: "length ?buf' = length buf"
    using fit by (auto simp: patch_fits_def g_bytes_get_size_def)
  from Cons.prems fit have "find (\<lambda>ptch. \<not> patch_fits buf ptch) ps = None" by simp
  then have "find (\<lambda>ptch. \<not> patch_fits ?buf' ptch) ps = None"
    by (simp add: patch_fits_length [OF len])
  from Cons.IH [OF this] len show ?case by (simp add: memcpy_fits [OF fit])
qed

lemma fmt_x_0: "fmt_x 0 = ''0''"
  by (simp add: fmt_x.simps hex_digit_def)

lemma fmt_x_5: "fmt_x 5 = ''5''"
  by (simp add: fmt_x.simps hex_digit_def)

lemma fmt_x_big: "fmt_x 4294967296 = ''100000000''"
  by (simp add: fmt_x.simps hex_digit_def)

text \<open>
  C5, as amended. A node with a byte buffer: \<^verbatim>\<open>fu_firmware_get_bytes_with_patches\<close> leaves
  the node, and so its stored buffer, as it was; a second call returns what the first
  returned; and when some patch does not fit the buffer, the call fails with the error of
  the first such patch of the list, whose message starts with
  \<^verbatim>\<open>failed to apply patch @0x\<close> and the hexadecimal low 32 bits of the offset of that
  patch, which is the offset itself below \<open>2 ^ 32\<close>.
\<close>

theorem C5_patched_read:
  assumes "bytes self = Some b"
  shows "snd (fu_firmware_get_bytes_with_patches self) = self
    \<and> fst (fu_firmware_get_bytes_with_patches (snd (fu_firmware_get_bytes_with_patches self)))
        = fst (fu_firmware_get_bytes_with_patches self)
    \<and> (\<forall>ps. patches self = Some ps
          \<longrightarrow> (\<exists>ptch \<in> set ps. \<not> patch_fits (bytes_data b) ptch)
          \<longrightarrow> (\<exists>ptch. find (\<lambda>ptch. \<not> patch_fits (bytes_data b) ptch) ps = Some ptch
                 \<and> fst (fu_firmware_get_bytes_with_patches self) = Inl (patch_error ptch)
                 \<and> prefix (''failed to apply patch @0x'' @ fmt_x (ptch_offset ptch mod 2 ^ 32) @ '': '')
                      (message (patch_error ptch))))"
proof -
  have unchanged: "snd (fu_firmware_get_bytes_with_patches self) = self"
    by (simp add: fu_firmware_get_bytes_with_patches_def split: option.splits)
  have misfit: "\<exists>ptch. find (\<lambda>ptch. \<not> patch_fits (bytes_data b) ptch) ps = Some ptch
                 \<and> fst (fu_firmware_get_bytes_with_patches self) = Inl (patch_error ptch)
                 \<and> prefix (''failed to apply patch @0x'' @ fmt_x (ptch_offset ptch mod 2 ^ 32) @ '': '')
                      (message (patch_error ptch))"
    if ps: "patches self = Some ps" and ex: "\<exists>ptch \<in> set ps. \<not> patch_fits (bytes_data b) ptch"
    for ps
  proof -
    from ex have "find (\<lambda>ptch. \<not> patch_fits (bytes_data b) ptch) ps \<noteq> None"
      by (auto simp: find_None_iff)
    then obtain ptch where f: "find (\<lambda>ptch. \<not> patch_fits (bytes_data b) ptch) ps = Some ptch"
      by auto
    have r: "fst (fu_firmware_get_bytes_with_patches self) = Inl (patch_error ptch)"
      using ps assms apply_patches_first_misfit [OF f]
      by (simp add: fu_firmware_get_bytes_with_patches_def)
    have "prefix (''failed to apply patch @0x'' @ fmt_x (ptch_offset ptch mod 2 ^ 32) @ '': '')
                   (message (patch_error ptch))"
      by (simp add: patch_error_def to_guint_def)
    with f r show ?thesis by blast
  qed
  show ?thesis using unchanged misfit by simp
qed

theorem C5_patched_read_witness:
  "bytes example_patched_node = Some \<lparr>bytes_ptr = 1, bytes_data = [1, 2, 3]\<rparr>
   \<and> example_misfit_patch \<in> set (patch_list example_patched_node)
   \<and> \<not> patch_fits [1, 2, 3] example_misfit_patch
   \<and> snd (fu_firmware_get_bytes_with_patches example_patched_node) = example_patched_node
   \<and> fst (fu_firmware_get_bytes_with_patches example_patched_node)
       = Inl \<lparr>code = FWUPD_ERROR_WRITE,
              message = ''failed to apply patch @0x5: attempted to write outside of the buffer''\<rparr>"
proof -
  have b: "bytes example_patched_node = Some \<lparr>bytes_ptr = 1, bytes_data = [1, 2, 3]\<rparr>"
    by (simp add: example_patched_node_def fu_firmware_init_def)
  have p: "patches example_patched_node
           = Some [\<lparr>ptch_offset = 1, ptch_blob = example_blob_aa\<rparr>, example_misfit_patch]"
    by (simp add: example_patched_node_def fu_firmware_init_def)
  have m: "\<not> patch_fits [1, 2, 3] example_misfit_patch"
    by (simp add: patch_fits_def example_misfit_patch_def g_bytes_get_size_def)
  have fi: "find (\<lambda>ptch. \<not> patch_fits (bytes_data \<lparr>bytes_ptr = 1, bytes_data = [1, 2, 3]\<rparr>) ptch)
              [\<lparr>ptch_offset = 1, ptch_blob = example_blob_aa\<rparr>, example_misfit_patch]
            = Some example_misfit_patch"
    by (simp add: patch_fits_def example_misfit_patch_def example_blob_aa_def g_bytes_get_size_def)
  have ex: "\<exists>ptch \<in> set [\<lparr>ptch_offset = 1, ptch_blob = example_blob_aa\<rparr>, example_misfit_patch].
              \<not> patch_fits (bytes_data \<lparr>bytes_ptr = 1, bytes_data = [1, 2, 3]\<rparr>) ptch"
    using m by simp
  note inst = C5_patched_read [OF b]
  note c1 = inst [THEN conjunct1]
  note c3 = inst [THEN conjunct2, THEN conjunct2, rule_format, OF p ex]
  from c3 fi have r: "fst (fu_firmware_get_bytes_with_patches example_patched_node)
                      = Inl (patch_error example_misfit_patch)"
    by auto
  have e: "patch_error example_misfit_patch
           = \<lparr>code = FWUPD_ERROR_WRITE,
              message = ''failed to apply patch @0x5: attempted to write outside of the buffer''\<rparr>"
    by (simp add: patch_error_def example_misfit_patch_def to_guint_def fmt_x_5)
  show ?thesis
    using b p m c1 r e by (simp add: patch_list_def)
qed

theorem C5_far_offset_counterexample:
  "fst (fu_firmware_get_bytes_with_patches example_far_patch_node)
     = Inl \<lparr>code = FWUPD_ERROR_WRITE,
            message = ''failed to apply patch @0x0: attempted to write outside of the buffer''\<rparr>
   \<and> fmt_x 4294967296 = ''100000000''
   \<and> \<not> sublist (fmt_x 4294967296)
          ''failed to apply patch @0x0: attempted to write outside of the buffer''"
  apply (simp add: fmt_x_big)
  apply (simp add: fu_firmware_get_bytes_with_patches_def example_far_patch_node_def fu_firmware_init_def
     fu_memcpy_safe_def g_bytes_get_size_def g_prefix_error_def to_guint_def fmt_x_0)
  apply code_simp
  done

section \<open>Adding patches\<close>

















section \<open>Stream-backed nodes and patches\<close>

text \<open>
  C7. A node without a buffer but with a stream: \<^verbatim>\<open>fu_firmware_get_bytes_with_patches\<close>
  returns exactly what \<^verbatim>\<open>fu_firmware_get_bytes\<close> returns, whatever the list of patches
  holds; the patches are not applied.
\<close>

theorem C7_stream_only_ignores_patches:
  "bytes self = None \<Longrightarrow> stream self = Some st \<Longrightarrow>
   fu_firmware_get_bytes_with_patches self = (fu_firmware_get_bytes self, self)"
  by (simp add: fu_firmware_get_bytes_with_patches_def)

theorem C7_stream_only_ignores_patches_witness:
  "bytes example_stream_node = None \<and> stream example_stream_node = Some example_stream
   \<and> patches example_stream_node \<noteq> None
   \<and> fu_firmware_get_bytes_with_patches example_stream_node = (Inr [1, 2, 3], example_stream_node)"
proof -
  have b: "bytes example_stream_node = None"
    by (simp add: example_stream_node_def fu_firmware_init_def)
  have s: "stream example_stream_node = Some example_stream"
    by (simp add: example_stream_node_def fu_firmware_init_def)
  have g: "fu_firmware_get_bytes example_stream_node = Inr [1, 2, 3]"
    by (simp add: fu_firmware_get_bytes_def example_stream_node_def fu_firmware_init_def
        example_stream_def fu_input_stream_read_bytes_def)
  have p: "patches example_stream_node \<noteq> None"
    by (simp add: example_stream_node_def fu_firmware_init_def)
  show ?thesis
    using C7_stream_only_ignores_patches [OF b s] b s g p by simp
qed


section \<open>The probe chain tries the candidates in order\<close>

lemma try_gtypes_fail:
  "\<forall>c \<in> set gs. fst (try_gtype bp st off fl c) \<noteq> None \<Longrightarrow>
   try_gtypes bp st off fl acc gs
     = Inl (foldl error_all_step acc (map (gtype_error bp st off fl) gs))"
proof (induction gs arbitrary: acc)
  case Nil
  then show ?case by simp
next
  case (Cons g gs)
  from Cons.prems obtain e fw where t: "try_gtype bp st off fl g = (Some e, fw)"
    by (cases "try_gtype bp st off fl g") auto
  then have ge: "gtype_error bp st off fl g = e" by (simp add: gtype_error_def)
  from t have p: "fu_firmware_parse_stream (klass_of g) bp (g_object_new g) st off fl = (Some e, fw)"
    by (simp add: try_gtype_def)
  from Cons.prems have "\<forall>c \<in> set gs. fst (try_gtype bp st off fl c) \<noteq> None" by simp
  from Cons.IH [OF this] p ge show ?case
    by (simp add: error_all_step_def)
qed

lemma try_gtypes_first_success:
  "\<forall>c \<in> set pre. fst (try_gtype bp st off fl c) \<noteq> None \<Longrightarrow>
   try_gtype bp st off fl g = (None, fw) \<Longrightarrow>
   try_gtypes bp st off fl acc (pre @ g # post) = Inr (g, fw)"
proof (induction pre arbitrary: acc)
  case Nil
  then show ?case by (simp add: try_gtype_def)
next
  case (Cons c pre)
  from Cons.prems obtain e fw' where t: "try_gtype bp st off fl c = (Some e, fw')"
    by (cases "try_gtype bp st off fl c") auto
  then have p: "fu_firmware_parse_stream (klass_of c) bp (g_object_new c) st off fl = (Some e, fw')"
    by (simp add: try_gtype_def)
  from Cons.prems have "\<forall>c \<in> set pre. fst (try_gtype bp st off fl c) \<noteq> None" by simp
  from Cons.IH [OF this Cons.prems(2)] p show ?case by simp
qed

lemma foldl_error_all:
  "\<exists>e. foldl error_all_step (Some ea) errs = Some e \<and> code e = code ea
       \<and> message e = concat (map (\<lambda>x. message x @ '': '') (rev errs)) @ message ea"
proof (induction errs arbitrary: ea)
  case Nil
  then show ?case by simp
next
  case (Cons x errs)
  from Cons.IH [of "g_prefix_error ea (message x @ '': '')"]
  show ?case by (simp add: error_all_step_def g_prefix_error_def)
qed

lemma sublist_in_concat:
  "x \<in> set xs \<Longrightarrow> sublist (f x) (concat (map (\<lambda>y. f y @ sep) xs) @ rest)"
proof -
  assume "x \<in> set xs"
  then obtain ys zs where "xs = ys @ x # zs" by (auto simp: in_set_conv_decomp)
  then have "concat (map (\<lambda>y. f y @ sep) xs) @ rest
      = concat (map (\<lambda>y. f y @ sep) ys) @ f x @ (sep @ concat (map (\<lambda>y. f y @ sep) zs) @ rest)"
    by simp
  then show ?thesis unfolding sublist_def by blast
qed

lemma all_fail_aggregate:
  assumes ne: "gs \<noteq> []" and fail: "\<forall>c \<in> set gs. fst (try_gtype bp st off fl c) \<noteq> None"
  shows "\<exists>e. fu_firmware_new_from_gtypes bp st off fl gs = Inl (Some e)
          \<and> code e = code (gtype_error bp st off fl (hd gs))
          \<and> message e = aggregate_messages (map (\<lambda>c. message (gtype_error bp st off fl c)) gs)
          \<and> (\<forall>c \<in> set gs. sublist (message (gtype_error bp st off fl c)) (message e))"
proof -
  from ne obtain g rest where gs: "gs = g # rest" by (cases gs) auto
  let ?err = "gtype_error bp st off fl"
  have "fu_firmware_new_from_gtypes bp st off fl gs
        = Inl (foldl error_all_step None (map ?err gs))"
    using ne try_gtypes_fail [OF fail] by (simp add: fu_firmware_new_from_gtypes_def)
  also have "foldl error_all_step None (map ?err gs)
        = foldl error_all_step (Some (?err g)) (map ?err rest)"
    by (simp add: gs error_all_step_def)
  finally have r: "fu_firmware_new_from_gtypes bp st off fl gs
        = Inl (foldl error_all_step (Some (?err g)) (map ?err rest))" .
  from foldl_error_all [of "?err g" "map ?err rest"] obtain e where
    e: "foldl error_all_step (Some (?err g)) (map ?err rest) = Some e"
    and c: "code e = code (?err g)"
    and m: "message e = concat (map (\<lambda>x. message x @ '': '') (rev (map ?err rest))) @ message (?err g)"
    by blast
  have agg: "message e = aggregate_messages (map (\<lambda>c. message (?err c)) gs)"
    by (simp add: m gs aggregate_messages_def rev_map comp_def)
  have sub: "sublist (message (?err c)) (message e)" if "c \<in> set gs" for c
  proof (cases "c = g")
    case True
    have "message e = concat (map (\<lambda>x. message x @ '': '') (rev (map ?err rest))) @ message (?err g) @ []"
      by (simp add: m)
    then show ?thesis unfolding True sublist_def by blast
  next
    case False
    with that gs have "?err c \<in> set (rev (map ?err rest))" by auto
    from sublist_in_concat [OF this, of message "'': ''" "message (?err g)"] show ?thesis
      by (simp add: m)
  qed
  from r e c agg sub gs show ?thesis by simp
qed

text \<open>
  C8. \<^verbatim>\<open>fu_firmware_new_from_gtypes\<close> fails with \<^verbatim>\<open>FWUPD_ERROR_NOTHING_TO_DO\<close> on an
  empty list of types. The first candidate whose parse succeeds is returned, whatever
  follows it in the list. When every candidate fails, the error carries the code of the
  first failure and the messages of all, each a part of the text.
\<close>

theorem C8_probe_chain:
  "fu_firmware_new_from_gtypes bp st off fl []
     = Inl (Some \<lparr>code = FWUPD_ERROR_NOTHING_TO_DO, message = ''no GTypes specified''\<rparr>)
   \<and> (\<forall>pre g post fw.
         (\<forall>c \<in> set pre. fst (try_gtype bp st off fl c) \<noteq> None)
         \<longrightarrow> try_gtype bp st off fl g = (None, fw)
         \<longrightarrow> fu_firmware_new_from_gtypes bp st off fl (pre @ g # post) = Inr (g, fw))
   \<and> (gs \<noteq> [] \<longrightarrow> (\<forall>c \<in> set gs. fst (try_gtype bp st off fl c) \<noteq> None)
        \<longrightarrow> (\<exists>e. fu_firmware_new_from_gtypes bp st off fl gs = Inl (Some e)
               \<and> code e = code (gtype_error bp st off fl (hd gs))
               \<and> message e = aggregate_messages (map (\<lambda>c. message (gtype_error bp st off fl c)) gs)
               \<and> (\<forall>c \<in> set gs. sublist (message (gtype_error bp st off fl c)) (message e))))"
proof -
  have one: "fu_firmware_new_from_gtypes bp st off fl []
     = Inl (Some \<lparr>code = FWUPD_ERROR_NOTHING_TO_DO, message = ''no GTypes specified''\<rparr>)"
    by (simp add: fu_firmware_new_from_gtypes_def)
  have two: "fu_firmware_new_from_gtypes bp st off fl (pre @ g # post) = Inr (g, fw)"
    if "\<forall>c \<in> set pre. fst (try_gtype bp st off fl c) \<noteq> None"
      "try_gtype bp st off fl g = (None, fw)" for pre g post fw
    using try_gtypes_first_success [OF that] by (simp add: fu_firmware_new_from_gtypes_def)
  show ?thesis using one two all_fail_aggregate [of gs bp st off fl] by blast
qed


lemma try_rejecting:
  "try_gtype 0 example_stream4 0 FU_FIRMWARE_PARSE_FLAG_NO_SEARCH (example_gtype_rejecting msg)
   = (Some \<lparr>code = FWUPD_ERROR_INVALID_FILE, message = msg\<rparr>, fu_firmware_init)"
  by (simp add: try_gtype_def g_object_new_def example_gtype_rejecting_def parse_eval
      example_stream4_def FU_FIRMWARE_PARSE_FLAG_NO_SEARCH_def FU_FIRMWARE_FLAG_ALWAYS_SEARCH_def)

lemma try_accepting:
  "try_gtype 0 example_stream4 0 FU_FIRMWARE_PARSE_FLAG_NO_SEARCH example_gtype_accepting
   = (None, fu_firmware_init\<lparr>flags := 0x14, streamsz := 4\<rparr>)"
  by (simp add: try_gtype_def g_object_new_def example_gtype_accepting_def parse_eval
      example_stream4_def FU_FIRMWARE_PARSE_FLAG_NO_SEARCH_def FU_FIRMWARE_FLAG_ALWAYS_SEARCH_def
      FU_FIRMWARE_FLAG_HAS_CHECKSUM_def)

theorem C8_probe_chain_witness:
  "fu_firmware_new_from_gtypes 0 example_stream4 0 FU_FIRMWARE_PARSE_FLAG_NO_SEARCH
     [example_gtype_rejecting ''not A'', example_gtype_accepting, example_gtype_rejecting ''not C'']
     = Inr (example_gtype_accepting, fu_firmware_init\<lparr>flags := 0x14, streamsz := 4\<rparr>)
   \<and> fu_firmware_new_from_gtypes 0 example_stream4 0 FU_FIRMWARE_PARSE_FLAG_NO_SEARCH
     [example_gtype_rejecting ''not A'', example_gtype_rejecting ''not B'',
      example_gtype_rejecting ''not C'']
     = Inl (Some \<lparr>code = FWUPD_ERROR_INVALID_FILE, message = ''not C: not B: not A''\<rparr>)
   \<and> sublist ''not A'' ''not C: not B: not A''
   \<and> sublist ''not B'' ''not C: not B: not A''
   \<and> sublist ''not C'' ''not C: not B: not A''"
proof -
  let ?f = "FU_FIRMWARE_PARSE_FLAG_NO_SEARCH"
  let ?A = "example_gtype_rejecting ''not A''"
  let ?B = "example_gtype_rejecting ''not B''"
  let ?C = "example_gtype_rejecting ''not C''"
  note inst1 = C8_probe_chain [of 0 example_stream4 0 ?f "[?A, ?B, ?C]"]
  have pre: "\<forall>c \<in> set [?A]. fst (try_gtype 0 example_stream4 0 ?f c) \<noteq> None"
    by (simp add: try_rejecting)
  have "fu_firmware_new_from_gtypes 0 example_stream4 0 ?f ([?A] @ example_gtype_accepting # [?C])
     = Inr (example_gtype_accepting, fu_firmware_init\<lparr>flags := 0x14, streamsz := 4\<rparr>)"
    using inst1 [THEN conjunct2, THEN conjunct1] pre try_accepting by blast
  then have first: "fu_firmware_new_from_gtypes 0 example_stream4 0 ?f [?A, example_gtype_accepting, ?C]
     = Inr (example_gtype_accepting, fu_firmware_init\<lparr>flags := 0x14, streamsz := 4\<rparr>)"
    by simp
  have ne: "[?A, ?B, ?C] \<noteq> []" by simp
  have fail: "\<forall>c \<in> set [?A, ?B, ?C]. fst (try_gtype 0 example_stream4 0 ?f c) \<noteq> None"
    by (simp add: try_rejecting)
  from inst1 [THEN conjunct2, THEN conjunct2] ne fail obtain e where
    r: "fu_firmware_new_from_gtypes 0 example_stream4 0 ?f [?A, ?B, ?C] = Inl (Some e)"
    and c: "code e = code (gtype_error 0 example_stream4 0 ?f (hd [?A, ?B, ?C]))"
    and m: "message e = aggregate_messages
              (map (\<lambda>c. message (gtype_error 0 example_stream4 0 ?f c)) [?A, ?B, ?C])"
    and s: "\<forall>c \<in> set [?A, ?B, ?C]. sublist (message (gtype_error 0 example_stream4 0 ?f c)) (message e)"
    by blast
  have ge: "gtype_error 0 example_stream4 0 ?f (example_gtype_rejecting msg)
            = \<lparr>code = FWUPD_ERROR_INVALID_FILE, message = msg\<rparr>" for msg
    by (simp add: gtype_error_def try_rejecting)
  from c have c': "code e = FWUPD_ERROR_INVALID_FILE" by (simp add: ge)
  from m have m': "message e = ''not C: not B: not A''"
    by (simp add: ge aggregate_messages_def)
  from c' m' have "e = \<lparr>code = FWUPD_ERROR_INVALID_FILE, message = ''not C: not B: not A''\<rparr>"
    by (cases e) simp
  with r s m' first show ?thesis by (simp add: ge)
qed

section \<open>Adding images\<close>

lemma add_image_full_ok:
  assumes "can_add_image h self img"
  shows "fu_firmware_add_image_full h self img
         = (None,
            h[self := (h ! self)\<lparr>images := dedupe_images h self img @ [img]\<rparr>,
              img := (h ! img)\<lparr>parent := Some self, depth := depth (h ! self) + 1\<rparr>])"
proof -
  from assms have v: "self < length h" "img < length h" "img \<noteq> self"
    and d: "\<not> depth (h ! self) > FU_FIRMWARE_IMAGE_DEPTH_MAX"
    and m: "\<not> (images_max (h ! self) > 0
              \<and> length (dedupe_images h self img) \<ge> images_max (h ! self))"
    by (auto simp: can_add_image_def FU_IS_FIRMWARE_def)
  show ?thesis
    using v d m
    by (simp add: fu_firmware_add_image_full_def FU_IS_FIRMWARE_def dedupe_images_def Let_def
        fu_firmware_set_parent_def fu_firmware_set_depth_def list_update_swap)
qed










lemma can_add_after_add:
  "can_add_image h self img \<Longrightarrow> can_add_image h self img' \<Longrightarrow> images_max (h ! self) = 0 \<Longrightarrow>
   can_add_image (snd (fu_firmware_add_image_full h self img)) self img'"
  by (simp add: add_image_full_ok can_add_image_def FU_IS_FIRMWARE_def)




























section \<open>Finding an image by id\<close>

lemma first_image_find: "first_image P imgs = find P imgs"
  by (induction imgs) auto

lemma match_split_iff:
  "match_split pieces img_id
   = (case img_id of None \<Rightarrow> False | Some s \<Rightarrow> \<exists>piece \<in> set pieces. g_pattern_match_simple piece s)"
  by (induction pieces) (auto split: option.splits)

lemma glob_elf_suffix: "g_pattern_match_simple ''*.elf'' (s @ ''.elf'')"
  by (induction s) simp_all

lemma glob_literal_elf: "g_pattern_match_simple ''.elf'' t \<longleftrightarrow> t = ''.elf''"
  by (auto split: list.splits)

lemma glob_elf_only_suffix: "g_pattern_match_simple ''*.elf'' t \<Longrightarrow> \<exists>s. t = s @ ''.elf''"
proof (induction t)
  case Nil
  then show ?case by simp
next
  case (Cons c t)
  from Cons.prems have "g_pattern_match_simple ''.elf'' (c # t) \<or> g_pattern_match_simple ''*.elf'' t"
    by simp
  then show ?case
  proof
    assume "g_pattern_match_simple ''.elf'' (c # t)"
    then have "c # t = [] @ ''.elf''" by (simp only: glob_literal_elf append_Nil)
    then show ?thesis by blast
  next
    assume "g_pattern_match_simple ''*.elf'' t"
    from Cons.IH [OF this] obtain s where "t = s @ ''.elf''" by blast
    then have "c # t = (c # s) @ ''.elf''" by simp
    then show ?thesis by blast
  qed
qed

text \<open>
  C10. \<^verbatim>\<open>fu_firmware_get_image_by_id\<close> with an id returns the first image, in the order of
  the array, whose id is matched by one of the pieces between the \<^verbatim>\<open>|\<close>, taken as
  patterns; with \<^verbatim>\<open>NULL\<close> it returns the first image without an id; and it fails with
  \<^verbatim>\<open>FWUPD_ERROR_NOT_FOUND\<close> when there is none. The pattern \<^verbatim>\<open>*.elf\<close> matches exactly
  the ids that end in \<^verbatim>\<open>.elf\<close>.
\<close>

theorem C10_get_image_by_id:
  "FU_IS_FIRMWARE h self \<longrightarrow>
     fu_firmware_get_image_by_id h self (Some ident)
       = (case find (\<lambda>img. id_matches ident (fu_firmware_get_id h img)) (images (h ! self)) of
            Some img \<Rightarrow> Inr img
          | None \<Rightarrow> Inl (G_ERROR \<lparr>code = FWUPD_ERROR_NOT_FOUND,
                                   message = ''no image id '' @ ident @ '' found in firmware''\<rparr>))
     \<and> fu_firmware_get_image_by_id h self None
       = (case find (\<lambda>img. fu_firmware_get_id h img = None) (images (h ! self)) of
            Some img \<Rightarrow> Inr img
          | None \<Rightarrow> Inl (G_ERROR \<lparr>code = FWUPD_ERROR_NOT_FOUND,
                                   message = ''no NULL image id found in firmware''\<rparr>))
     \<and> (g_pattern_match_simple ''*.elf'' t \<longleftrightarrow> (\<exists>s. t = s @ ''.elf''))"
proof
  assume v: "FU_IS_FIRMWARE h self"
  have m: "(\<lambda>img. match_split (g_strsplit ident CHR ''|'') (fu_firmware_get_id h img))
           = (\<lambda>img. id_matches ident (fu_firmware_get_id h img))"
    by (simp add: match_split_iff id_matches_def)
  have one: "fu_firmware_get_image_by_id h self (Some ident)
       = (case find (\<lambda>img. id_matches ident (fu_firmware_get_id h img)) (images (h ! self)) of
            Some img \<Rightarrow> Inr img
          | None \<Rightarrow> Inl (G_ERROR \<lparr>code = FWUPD_ERROR_NOT_FOUND,
                                   message = ''no image id '' @ ident @ '' found in firmware''\<rparr>))"
    using v by (simp add: fu_firmware_get_image_by_id_def first_image_find m)
  have two: "fu_firmware_get_image_by_id h self None
       = (case find (\<lambda>img. fu_firmware_get_id h img = None) (images (h ! self)) of
            Some img \<Rightarrow> Inr img
          | None \<Rightarrow> Inl (G_ERROR \<lparr>code = FWUPD_ERROR_NOT_FOUND,
                                   message = ''no NULL image id found in firmware''\<rparr>))"
    using v by (simp add: fu_firmware_get_image_by_id_def first_image_find)
  have three: "g_pattern_match_simple ''*.elf'' t \<longleftrightarrow> (\<exists>s. t = s @ ''.elf'')"
    using glob_elf_suffix glob_elf_only_suffix by blast
  from one two three show "fu_firmware_get_image_by_id h self (Some ident)
       = (case find (\<lambda>img. id_matches ident (fu_firmware_get_id h img)) (images (h ! self)) of
            Some img \<Rightarrow> Inr img
          | None \<Rightarrow> Inl (G_ERROR \<lparr>code = FWUPD_ERROR_NOT_FOUND,
                                   message = ''no image id '' @ ident @ '' found in firmware''\<rparr>))
     \<and> fu_firmware_get_image_by_id h self None
       = (case find (\<lambda>img. fu_firmware_get_id h img = None) (images (h ! self)) of
            Some img \<Rightarrow> Inr img
          | None \<Rightarrow> Inl (G_ERROR \<lparr>code = FWUPD_ERROR_NOT_FOUND,
                                   message = ''no NULL image id found in firmware''\<rparr>))
     \<and> (g_pattern_match_simple ''*.elf'' t \<longleftrightarrow> (\<exists>s. t = s @ ''.elf''))"
    by simp
qed

theorem C10_get_image_by_id_witness:
  "FU_IS_FIRMWARE example_tree 0
   \<and> g_strsplit ''*.mfg|*.elf'' CHR ''|'' = [''*.mfg'', ''*.elf'']
   \<and> fu_firmware_get_image_by_id example_tree 0 (Some ''*.mfg|*.elf'') = Inr 3
   \<and> fu_firmware_get_image_by_id example_tree 0 None = Inr 2
   \<and> fu_firmware_get_image_by_id example_tree 0 (Some ''*.bin'')
       = Inl (G_ERROR \<lparr>code = FWUPD_ERROR_NOT_FOUND,
                       message = ''no image id *.bin found in firmware''\<rparr>)"
proof -
  have v: "FU_IS_FIRMWARE example_tree 0"
    by (simp add: FU_IS_FIRMWARE_def example_tree_def)
  have sp: "g_strsplit ''*.mfg|*.elf'' CHR ''|'' = [''*.mfg'', ''*.elf'']"
    by (simp add: g_strsplit_def)
  have sp2: "g_strsplit ''*.bin'' CHR ''|'' = [''*.bin'']"
    by (simp add: g_strsplit_def)
  have ids: "fu_firmware_get_id example_tree (Suc 0) = Some ''header''"
    "fu_firmware_get_id example_tree 2 = None"
    "fu_firmware_get_id example_tree 3 = Some ''payload.elf''"
    by (simp_all add: fu_firmware_get_id_def FU_IS_FIRMWARE_def example_tree_def fu_firmware_init_def)
  have im: "images (example_tree ! 0) = [1, 2, 3]"
    by (simp add: example_tree_def fu_firmware_init_def)
  have f1: "find (\<lambda>img. id_matches ''*.mfg|*.elf'' (fu_firmware_get_id example_tree img)) [1, 2, 3]
            = Some 3"
    by (simp add: id_matches_def sp ids)
  have f2: "find (\<lambda>img. fu_firmware_get_id example_tree img = None) [1, 2, 3] = Some 2"
    by (simp add: ids)
  have f3: "find (\<lambda>img. id_matches ''*.bin'' (fu_firmware_get_id example_tree img)) [1, 2, 3] = None"
    by (simp add: id_matches_def sp2 ids)
  note a = C10_get_image_by_id [of example_tree 0 "''*.mfg|*.elf''" "''x''", THEN mp, OF v]
  note b = C10_get_image_by_id [of example_tree 0 "''*.bin''" "''x''", THEN mp, OF v]
  from a [THEN conjunct1] a [THEN conjunct2, THEN conjunct1] b [THEN conjunct1] v sp im f1 f2 f3
  show ?thesis by simp
qed

end
